theory Spec2Isabelle
  imports Complex_Main
begin

section \<open>JavaScript values as the loaders see them\<close>

text \<open>
  \<^verbatim>\<open>yaml.load\<close> and \<^verbatim>\<open>JSON.parse\<close> hand the loaders a value of type \<^verbatim>\<open>any\<close>. The model
  is the value after parsing: \<open>Obj\<close> holds the own properties of a parsed object
  (\<open>map_of\<close> reads the first entry of a key), \<open>Num\<close> holds a finite number by its exact
  value (\<open>Num 0\<close> stands for both zeros; NaN and the infinities, which JSON cannot
  write, are not represented), and \<open>Undefined\<close> is what reading a missing property gives.
\<close>

datatype jsval =
    Undefined
  | Null
  | Bool bool
  | Num rat
  | Str string
  | Arr "jsval list"
  | Obj "(string \<times> jsval) list"

text \<open>
  The exceptions of the model. \<open>TypeError\<close> is what the engine throws when a property
  of \<^verbatim>\<open>undefined\<close> or \<^verbatim>\<open>null\<close> is read or a non-function is called;
  \<open>SyntaxError\<close> and \<open>YAMLException\<close> are the parsers' failures. \<open>DataShapeError\<close>
  is the error the specification names; no line of the source throws it.
\<close>

datatype error = TypeError | SyntaxError | YAMLException | DataShapeError

definition bindE :: "error + 'a \<Rightarrow> ('a \<Rightarrow> error + 'b) \<Rightarrow> error + 'b" where
  "bindE m f = (case m of Inl e \<Rightarrow> Inl e | Inr v \<Rightarrow> f v)"

definition nullish :: "jsval \<Rightarrow> bool" where
  "nullish v \<longleftrightarrow> v = Undefined \<or> v = Null"

text \<open>
  \<open>lookupProp v k\<close> is \<^verbatim>\<open>v.k\<close> on a value that is neither \<^verbatim>\<open>undefined\<close> nor
  \<^verbatim>\<open>null\<close>, for the property names the loaders read (none of them is a built-in
  property of strings, numbers, booleans or arrays, so on those the result is
  \<^verbatim>\<open>undefined\<close>).
\<close>

fun lookupProp :: "jsval \<Rightarrow> string \<Rightarrow> jsval" where
  "lookupProp (Obj kvs) k = (case map_of kvs k of None \<Rightarrow> Undefined | Some v \<Rightarrow> v)"
| "lookupProp _ k = Undefined"

text \<open>\<^verbatim>\<open>v.k\<close>: throws on \<^verbatim>\<open>undefined\<close> and \<^verbatim>\<open>null\<close>.\<close>

definition getProp :: "jsval \<Rightarrow> string \<Rightarrow> error + jsval" where
  "getProp v k = (if nullish v then Inl TypeError else Inr (lookupProp v k))"

text \<open>\<^verbatim>\<open>v?.k\<close>: \<^verbatim>\<open>undefined\<close> on \<^verbatim>\<open>undefined\<close> and \<^verbatim>\<open>null\<close>, never throws.\<close>

definition optChain :: "jsval \<Rightarrow> string \<Rightarrow> jsval" where
  "optChain v k = (if nullish v then Undefined else lookupProp v k)"

text \<open>\<^verbatim>\<open>a.k1.k2...\<close>, left to right.\<close>

fun getPath :: "jsval \<Rightarrow> string list \<Rightarrow> error + jsval" where
  "getPath v [] = Inr v"
| "getPath v (k # ks) = bindE (getProp v k) (\<lambda>w. getPath w ks)"

text \<open>Truthiness, as \<^verbatim>\<open>||\<close> and \<^verbatim>\<open>? :\<close> test it.\<close>

fun truthy :: "jsval \<Rightarrow> bool" where
  "truthy Undefined = False"
| "truthy Null = False"
| "truthy (Bool b) = b"
| "truthy (Num n) = (n \<noteq> 0)"
| "truthy (Str s) = (s \<noteq> [])"
| "truthy (Arr xs) = True"
| "truthy (Obj kvs) = True"

text \<open>\<^verbatim>\<open>a || b\<close> for operands without effects.\<close>

definition js_or :: "jsval \<Rightarrow> jsval \<Rightarrow> jsval" where
  "js_or a b = (if truthy a then a else b)"

text \<open>\<^verbatim>\<open>xs.map(f)\<close> for an \<open>f\<close> that may throw: elements in order, the first throw ends it.\<close>

fun mapE :: "('a \<Rightarrow> error + 'b) \<Rightarrow> 'a list \<Rightarrow> error + 'b list" where
  "mapE f [] = Inr []"
| "mapE f (x # xs) = bindE (f x) (\<lambda>y. bindE (mapE f xs) (\<lambda>ys. Inr (y # ys)))"


section \<open>The Timeline Transformer (src/utils/dataLoader.ts, loadTimeline)\<close>

text \<open>
  \<^verbatim>\<open>TimelineEvent\<close> of types.ts. The loader checks no kind, so each field holds whatever
  value the document had. The optional \<^verbatim>\<open>details\<close> is never set by the loader.
\<close>

record TimelineEvent =
  period :: jsval
  event :: jsval
  achievements :: jsval

text \<open>
  The arrow function handed to \<^verbatim>\<open>map\<close> (lines 82 to 86):
  \<^verbatim>\<open>achievements: item.achievements || (item.state ? [item.state] : [])\<close>.
\<close>

definition loadTimeline_item :: "jsval \<Rightarrow> error + TimelineEvent" where
  "loadTimeline_item item =
     bindE (getProp item ''period'') (\<lambda>p.
     bindE (getProp item ''event'') (\<lambda>e.
     bindE (getProp item ''achievements'') (\<lambda>a.
       if truthy a then Inr \<lparr>period = p, event = e, achievements = a\<rparr>
       else bindE (getProp item ''state'') (\<lambda>s.
         Inr \<lparr>period = p, event = e,
              achievements = (if truthy s then Arr [s] else Arr [])\<rparr>))))"

text \<open>
  Lines 82 to 86 on the parsed document: \<^verbatim>\<open>timelineData.career_timeline.map(...)\<close>.
  Calling \<^verbatim>\<open>map\<close> on anything but an array is a TypeError.
\<close>

definition loadTimeline_parsed :: "jsval \<Rightarrow> error + TimelineEvent list" where
  "loadTimeline_parsed timelineData =
     bindE (getProp timelineData ''career_timeline'') (\<lambda>ct.
       case ct of
         Arr items \<Rightarrow> mapE loadTimeline_item items
       | _ \<Rightarrow> Inl TypeError)"

text \<open>
  \<open>loadTimeline\<close> with the imported text and \<^verbatim>\<open>JSON.parse\<close> as parameters
  (\<open>None\<close> is the parser's SyntaxError).
\<close>

definition loadTimeline :: "(string \<Rightarrow> jsval option) \<Rightarrow> string \<Rightarrow> error + TimelineEvent list" where
  "loadTimeline JSON_parse timelineJson =
     (case JSON_parse timelineJson of
        None \<Rightarrow> Inl SyntaxError
      | Some timelineData \<Rightarrow> loadTimeline_parsed timelineData)"


section \<open>The View-Model Loader (src/utils/dataLoader.ts, loadMasterData)\<close>

text \<open>
  \<^verbatim>\<open>CareerData\<close> of types.ts, one record for each nested object type. The loader casts
  the parsed document to \<^verbatim>\<open>any\<close> and checks no kind, so a leaf holds whatever value
  the document had there. The two objects of \<^verbatim>\<open>platform_transformation\<close> share four
  fields; \<^verbatim>\<open>scale\<close> repeats the names \<^verbatim>\<open>clusters\<close> and \<^verbatim>\<open>aws_accounts\<close>, written
  \<open>scale_clusters\<close> and \<open>scale_aws_accounts\<close> here.
\<close>

record career_summary_rec =
  current_role :: jsval
  company :: jsval
  duration :: jsval
  location :: jsval
  elevator_pitch :: jsval

record before_rec =
  clusters :: jsval
  deployment_method :: jsval
  environment_creation_time :: jsval
  aws_accounts :: jsval

record after_rec = before_rec +
  peak_clusters :: jsval
  peak_accounts :: jsval

record platform_transformation_rec =
  before :: before_rec
  after :: after_rec

record b2b_cli_rec =
  description :: jsval
  lines_of_code :: jsval
  language :: jsval
  framework :: jsval
  key_features :: jsval

record infrastructure_architecture_rec =
  codename :: jsval
  design_pattern :: jsval
  problem_solved :: jsval
  key_innovations :: jsval

record self_healing_system_rec =
  name :: jsval
  total_fixers :: jsval
  configuration :: jsval

text \<open>
  types.ts declares \<^verbatim>\<open>self_healing_system\<close> mandatory and the loader always builds it;
  HeroSection still reads it with \<^verbatim>\<open>?.\<close>, so the record admits its absence (\<open>None\<close>).
\<close>

record technical_achievements_rec =
  b2b_cli :: b2b_cli_rec
  infrastructure_architecture :: infrastructure_architecture_rec
  self_healing_system :: "self_healing_system_rec option"

record scale_rec =
  scale_clusters :: jsval
  scale_aws_accounts :: jsval
  developers_supported :: jsval

record efficiency_rec =
  environment_creation :: jsval
  deployment_process :: jsval
  platform_engineer_productivity :: jsval

record reliability_rec =
  self_healing_patterns :: jsval

record metrics_and_impact_rec =
  scale :: scale_rec
  efficiency :: efficiency_rec
  reliability :: reliability_rec

record CareerData =
  career_summary :: career_summary_rec
  platform_transformation :: platform_transformation_rec
  technical_achievements :: technical_achievements_rec
  metrics_and_impact :: metrics_and_impact_rec

text \<open>
  The object literal of lines 16 to 75, one definition for each nested literal. The
  property reads run in source order; the first one that throws ends the call.
\<close>

definition load_career_summary :: "jsval \<Rightarrow> error + career_summary_rec" where
  "load_career_summary yamlData =
     bindE (getPath yamlData [''career_summary'', ''current_role'']) (\<lambda>v1.
     bindE (getPath yamlData [''career_summary'', ''company'']) (\<lambda>v2.
     bindE (getPath yamlData [''career_summary'', ''duration'']) (\<lambda>v3.
     bindE (getPath yamlData [''career_summary'', ''location'']) (\<lambda>v4.
     bindE (getPath yamlData [''career_summary'', ''elevator_pitch'']) (\<lambda>v5.
       Inr \<lparr>current_role = v1, company = v2, duration = v3, location = v4,
            elevator_pitch = v5\<rparr>)))))"

definition load_before :: "jsval \<Rightarrow> error + before_rec" where
  "load_before yamlData =
     bindE (getPath yamlData [''platform_transformation'', ''before'', ''clusters'']) (\<lambda>v1.
     bindE (getPath yamlData [''platform_transformation'', ''before'', ''deployment_method'']) (\<lambda>v2.
     bindE (getPath yamlData [''platform_transformation'', ''before'', ''environment_creation_time'']) (\<lambda>v3.
     bindE (getPath yamlData [''platform_transformation'', ''before'', ''aws_accounts'']) (\<lambda>v4.
       Inr \<lparr>clusters = v1, deployment_method = v2, environment_creation_time = v3,
            aws_accounts = v4\<rparr>))))"

definition load_after :: "jsval \<Rightarrow> error + after_rec" where
  "load_after yamlData =
     bindE (getPath yamlData [''platform_transformation'', ''after'', ''clusters'']) (\<lambda>v1.
     bindE (getPath yamlData [''platform_transformation'', ''after'', ''deployment_method'']) (\<lambda>v2.
     bindE (getPath yamlData [''platform_transformation'', ''after'', ''environment_creation_time'']) (\<lambda>v3.
     bindE (getPath yamlData [''platform_transformation'', ''after'', ''aws_accounts'']) (\<lambda>v4.
     bindE (getPath yamlData [''platform_transformation'', ''after'', ''peak_clusters'']) (\<lambda>v5.
     bindE (getPath yamlData [''platform_transformation'', ''after'', ''peak_accounts'']) (\<lambda>v6.
       Inr \<lparr>clusters = v1, deployment_method = v2, environment_creation_time = v3,
            aws_accounts = v4, peak_clusters = v5, peak_accounts = v6\<rparr>))))))"

definition load_platform_transformation :: "jsval \<Rightarrow> error + platform_transformation_rec" where
  "load_platform_transformation yamlData =
     bindE (load_before yamlData) (\<lambda>b.
     bindE (load_after yamlData) (\<lambda>a.
       Inr \<lparr>before = b, after = a\<rparr>))"

definition load_b2b_cli :: "jsval \<Rightarrow> error + b2b_cli_rec" where
  "load_b2b_cli yamlData =
     bindE (getPath yamlData [''technical_achievements'', ''b2b_cli'', ''description'']) (\<lambda>v1.
     bindE (getPath yamlData [''technical_achievements'', ''b2b_cli'', ''lines_of_code'']) (\<lambda>v2.
     bindE (getPath yamlData [''technical_achievements'', ''b2b_cli'', ''language'']) (\<lambda>v3.
     bindE (getPath yamlData [''technical_achievements'', ''b2b_cli'', ''framework'']) (\<lambda>v4.
     bindE (getPath yamlData [''technical_achievements'', ''b2b_cli'', ''key_features'']) (\<lambda>v5.
       Inr \<lparr>description = v1, lines_of_code = v2, language = v3, framework = v4,
            key_features = v5\<rparr>)))))"

definition load_infrastructure_architecture ::
  "jsval \<Rightarrow> error + infrastructure_architecture_rec" where
  "load_infrastructure_architecture yamlData =
     bindE (getPath yamlData [''technical_achievements'', ''infrastructure_architecture'', ''codename'']) (\<lambda>v1.
     bindE (getPath yamlData [''technical_achievements'', ''infrastructure_architecture'', ''design_pattern'']) (\<lambda>v2.
     bindE (getPath yamlData [''technical_achievements'', ''infrastructure_architecture'', ''problem_solved'']) (\<lambda>v3.
     bindE (getPath yamlData [''technical_achievements'', ''infrastructure_architecture'', ''key_innovations'']) (\<lambda>v4.
       Inr \<lparr>codename = v1, design_pattern = v2, problem_solved = v3,
            key_innovations = v4\<rparr>))))"

text \<open>Lines 54 to 58 read \<^verbatim>\<open>yamlData.self_healing_system\<close>, a key of the document's root.\<close>

definition load_self_healing_system :: "jsval \<Rightarrow> error + self_healing_system_rec" where
  "load_self_healing_system yamlData =
     bindE (getPath yamlData [''self_healing_system'', ''name'']) (\<lambda>v1.
     bindE (getPath yamlData [''self_healing_system'', ''total_fixers'']) (\<lambda>v2.
     bindE (getPath yamlData [''self_healing_system'', ''configuration'']) (\<lambda>v3.
       Inr \<lparr>name = v1, total_fixers = v2, configuration = v3\<rparr>)))"

definition load_technical_achievements :: "jsval \<Rightarrow> error + technical_achievements_rec" where
  "load_technical_achievements yamlData =
     bindE (load_b2b_cli yamlData) (\<lambda>c.
     bindE (load_infrastructure_architecture yamlData) (\<lambda>i.
     bindE (load_self_healing_system yamlData) (\<lambda>h.
       Inr \<lparr>b2b_cli = c, infrastructure_architecture = i, self_healing_system = Some h\<rparr>)))"

definition load_scale :: "jsval \<Rightarrow> error + scale_rec" where
  "load_scale yamlData =
     bindE (getPath yamlData [''platform_transformation'', ''after'', ''peak_clusters'']) (\<lambda>v1.
     bindE (getPath yamlData [''platform_transformation'', ''after'', ''peak_accounts'']) (\<lambda>v2.
     bindE (getPath yamlData [''platform_transformation'', ''scale'', ''developers_supported'']) (\<lambda>v3.
       Inr \<lparr>scale_clusters = v1, scale_aws_accounts = v2, developers_supported = v3\<rparr>)))"

definition load_efficiency :: "jsval \<Rightarrow> error + efficiency_rec" where
  "load_efficiency yamlData =
     bindE (getPath yamlData [''technical_achievements'', ''metrics_and_impact'', ''efficiency'', ''environment_creation'']) (\<lambda>v1.
     bindE (getPath yamlData [''technical_achievements'', ''metrics_and_impact'', ''efficiency'', ''deployment_process'']) (\<lambda>v2.
     bindE (getPath yamlData [''technical_achievements'', ''metrics_and_impact'', ''efficiency'', ''platform_engineer_productivity'']) (\<lambda>v3.
       Inr \<lparr>environment_creation = v1, deployment_process = v2,
            platform_engineer_productivity = v3\<rparr>)))"

definition load_reliability :: "jsval \<Rightarrow> error + reliability_rec" where
  "load_reliability yamlData =
     bindE (getPath yamlData [''self_healing_system'', ''total_fixers'']) (\<lambda>v1.
       Inr \<lparr>self_healing_patterns = v1\<rparr>)"

definition load_metrics_and_impact :: "jsval \<Rightarrow> error + metrics_and_impact_rec" where
  "load_metrics_and_impact yamlData =
     bindE (load_scale yamlData) (\<lambda>s.
     bindE (load_efficiency yamlData) (\<lambda>e.
     bindE (load_reliability yamlData) (\<lambda>r.
       Inr \<lparr>scale = s, efficiency = e, reliability = r\<rparr>)))"

definition buildCareerData :: "jsval \<Rightarrow> error + CareerData" where
  "buildCareerData yamlData =
     bindE (load_career_summary yamlData) (\<lambda>c.
     bindE (load_platform_transformation yamlData) (\<lambda>p.
     bindE (load_technical_achievements yamlData) (\<lambda>t.
     bindE (load_metrics_and_impact yamlData) (\<lambda>m.
       Inr \<lparr>career_summary = c, platform_transformation = p,
            technical_achievements = t, metrics_and_impact = m\<rparr>))))"

text \<open>
  The console is the one piece of state the loader touches: \<^verbatim>\<open>console.log\<close> appends a
  line (lines 13 and 14). A line is its label and the value logged.
\<close>

type_synonym console = "(string \<times> jsval) list"

text \<open>Lines 12 to 75 on the parsed document.\<close>

definition loadMasterData_parsed ::
  "jsval \<Rightarrow> console \<Rightarrow> (error + CareerData) \<times> console" where
  "loadMasterData_parsed yamlData out =
     (case getProp yamlData ''technical_achievements'' of
        Inl e \<Rightarrow> (Inl e, out)
      | Inr ta \<Rightarrow>
          let out1 = out @ [(''Lines of code from YAML:'',
                             optChain (optChain ta ''b2b_cli'') ''lines_of_code'')]
          in (case getProp yamlData ''platform_transformation'' of
                Inl e \<Rightarrow> (Inl e, out1)
              | Inr pt \<Rightarrow>
                  let out2 = out1 @ [(''Peak clusters:'',
                                      optChain (optChain pt ''after'') ''peak_clusters'')]
                  in (buildCareerData yamlData, out2)))"

text \<open>
  The two lines a call that gets past line 14 has written to the console (lines 13 and
  14), as a function of the document.
\<close>

definition debugLines :: "jsval \<Rightarrow> console" where
  "debugLines yamlData =
     [(''Lines of code from YAML:'',
       optChain (optChain (lookupProp yamlData ''technical_achievements'') ''b2b_cli'')
         ''lines_of_code''),
      (''Peak clusters:'',
       optChain (optChain (lookupProp yamlData ''platform_transformation'') ''after'')
         ''peak_clusters'')]"

text \<open>
  \<open>loadMasterData\<close> with the imported text and \<^verbatim>\<open>yaml.load\<close> as parameters
  (\<open>None\<close> is the parser's YAMLException).
\<close>

definition loadMasterData ::
  "(string \<Rightarrow> jsval option) \<Rightarrow> string \<Rightarrow> console \<Rightarrow> (error + CareerData) \<times> console" where
  "loadMasterData yaml_load masterDataYaml out =
     (case yaml_load masterDataYaml of
        None \<Rightarrow> (Inl YAMLException, out)
      | Some yamlData \<Rightarrow> loadMasterData_parsed yamlData out)"


section \<open>The host: double arithmetic and number formatting\<close>

text \<open>
  JavaScript numbers are IEEE doubles. A finite double is the rational it denotes, and
  \<^verbatim>\<open>a / b\<close>, \<^verbatim>\<open>a * b\<close> and \<^verbatim>\<open>a + b\<close> are the exact result rounded to a double. The
  rounding is a parameter of the model, \<open>rnd\<close>; the theorems say what they need of it
  (that it is monotone, or that it leaves a given value as it is), and exact arithmetic
  is the instance \<open>rnd = (\<lambda>x. x)\<close>. \<open>toLocaleString\<close> is the host's
  \<^verbatim>\<open>Number.prototype.toLocaleString\<close>, which depends on the locale of the browser, and
  \<open>numberToString\<close> is the host's conversion of a number to a string, which
  \<^verbatim>\<open>toFixed\<close> falls back to from \<open>10^21\<close> on.
\<close>

record host =
  rnd :: "rat \<Rightarrow> rat"
  numberToString :: "rat \<Rightarrow> string"
  toLocaleString :: "rat \<Rightarrow> string"

text \<open>The decimal digits of a natural number.\<close>

fun digits :: "nat \<Rightarrow> string" where
  "digits n =
     (if n < 10 then [char_of (48 + n)]
      else digits (n div 10) @ [char_of (48 + n mod 10)])"

declare digits.simps [simp del]

text \<open>
  \<^verbatim>\<open>x.toFixed(0)\<close> (ECMAScript, Number.prototype.toFixed): the sign, then the integer
  nearest to \<open>\<bar>x\<bar>\<close>, the larger one of two equally near.
\<close>

definition toFixed0 :: "host \<Rightarrow> rat \<Rightarrow> string" where
  "toFixed0 h x =
     (if x < 0 then ''-'' else []) @
     (if \<bar>x\<bar> \<ge> 10 ^ 21 then numberToString h \<bar>x\<bar>
      else digits (nat \<lfloor>\<bar>x\<bar> + 1 / 2\<rfloor>))"


section \<open>The Hero section: targets, Counter Animator, formatNumber\<close>

text \<open>
  The four statistics of \<^verbatim>\<open>animatedStats\<close> and of \<^verbatim>\<open>targets\<close>: \<^verbatim>\<open>clusters\<close>,
  \<^verbatim>\<open>linesOfCode\<close>, \<^verbatim>\<open>fixers\<close>, \<^verbatim>\<open>accounts\<close> (the first is written \<open>hero_clusters\<close>, the
  name \<open>clusters\<close> being a field of the loaded data).
\<close>

record 'a stats =
  hero_clusters :: 'a
  linesOfCode :: 'a
  fixers :: 'a
  accounts :: 'a

text \<open>
  Lines 14 to 19: the targets, read from the loaded data. \<^verbatim>\<open>?.\<close> gives
  \<^verbatim>\<open>undefined\<close> when the record is absent.
\<close>

definition heroTargets :: "CareerData \<Rightarrow> jsval stats" where
  "heroTargets data =
     \<lparr>hero_clusters = peak_clusters (after (platform_transformation data)),
      linesOfCode = lines_of_code (b2b_cli (technical_achievements data)),
      fixers = js_or (case self_healing_system (technical_achievements data) of
                        None \<Rightarrow> Undefined
                      | Some r \<Rightarrow> total_fixers r) (Num 31),
      accounts = peak_accounts (after (platform_transformation data))\<rparr>"

text \<open>
  The arithmetic of the animator is modelled for targets that are numbers, the kind
  types.ts declares for the four fields; \<open>numericTargets\<close> reads them off
  (\<open>None\<close> when a target is of another kind, where JavaScript would coerce it).
\<close>

fun asNumber :: "jsval \<Rightarrow> rat option" where
  "asNumber (Num n) = Some n"
| "asNumber _ = None"

definition numericTargets :: "jsval stats \<Rightarrow> rat stats option" where
  "numericTargets t =
     (case (asNumber (hero_clusters t), asNumber (linesOfCode t), asNumber (fixers t),
            asNumber (accounts t)) of
        (Some c, Some l, Some f, Some a) \<Rightarrow>
          Some \<lparr>hero_clusters = c, linesOfCode = l, fixers = f, accounts = a\<rparr>
      | _ \<Rightarrow> None)"

definition steps :: nat where
  "steps = 60"

text \<open>
  The state of the effect of lines 13 to 43: the closure variable \<^verbatim>\<open>currentStep\<close>,
  the React state \<^verbatim>\<open>animatedStats\<close>, and whether the interval timer is still set.
\<close>

record hero_state =
  currentStep :: nat
  animatedStats :: "int stats"
  timerActive :: bool

definition heroInit :: hero_state where
  "heroInit =
     \<lparr>currentStep = 0,
      animatedStats = \<lparr>hero_clusters = 0, linesOfCode = 0, fixers = 0, accounts = 0\<rparr>,
      timerActive = True\<rparr>"

text \<open>Line 28: \<^verbatim>\<open>Math.min(currentStep / steps, 1)\<close>.\<close>

definition progressAt :: "host \<Rightarrow> nat \<Rightarrow> rat" where
  "progressAt h step = min (rnd h (of_nat step / of_nat steps)) 1"

text \<open>
  One firing of the interval callback (lines 26 to 40). After \<^verbatim>\<open>clearInterval\<close> the
  callback no longer runs: the state stays as it is.
\<close>

definition tick :: "host \<Rightarrow> rat stats \<Rightarrow> hero_state \<Rightarrow> hero_state" where
  "tick h targets s =
     (if \<not> timerActive s then s
      else
        let step = currentStep s + 1;
            progress = progressAt h step
        in \<lparr>currentStep = step,
            animatedStats =
              \<lparr>hero_clusters = \<lfloor>rnd h (progress * hero_clusters targets)\<rfloor>,
               linesOfCode = \<lfloor>rnd h (progress * linesOfCode targets)\<rfloor>,
               fixers = \<lfloor>rnd h (progress * fixers targets)\<rfloor>,
               accounts = \<lfloor>rnd h (progress * accounts targets)\<rfloor>\<rparr>,
            timerActive = (progress \<noteq> 1)\<rparr>)"

text \<open>The state after \<open>n\<close> periods of the timer.\<close>

definition afterTicks :: "host \<Rightarrow> rat stats \<Rightarrow> nat \<Rightarrow> hero_state" where
  "afterTicks h targets n = (tick h targets ^^ n) heroInit"

text \<open>
  The specification's words for a counter that shows \<open>v k\<close> after \<open>k\<close> steps: it starts
  at 0, never decreases, and its value after the last step is exactly the target.
\<close>

definition counts_up_to :: "(nat \<Rightarrow> int) \<Rightarrow> int \<Rightarrow> bool" where
  "counts_up_to v T \<longleftrightarrow> v 0 = 0 \<and> (\<forall>i j. i \<le> j \<longrightarrow> v i \<le> v j) \<and> v steps = T"

text \<open>
  Lines 45 to 48, with the number types.ts declares for \<^verbatim>\<open>lines_of_code\<close> as a
  parameter.
\<close>

definition formatNumber :: "host \<Rightarrow> rat \<Rightarrow> rat \<Rightarrow> string" where
  "formatNumber h lines_of_code_value num =
     (if num \<ge> lines_of_code_value then toFixed0 h (rnd h (num / 1000)) @ ''k''
      else toLocaleString h num)"

text \<open>
  Line 155: the text of the Lines of Code card,
  \<^verbatim>\<open>formatNumber(animatedStats.linesOfCode)\<close>.
\<close>

definition linesOfCodeText :: "host \<Rightarrow> rat \<Rightarrow> hero_state \<Rightarrow> string" where
  "linesOfCodeText h lines_of_code_value s =
     formatNumber h lines_of_code_value (of_int (linesOfCode (animatedStats s)))"


section \<open>The Scroll Coordinator (App, handleScroll)\<close>

text \<open>
  The document as \<^verbatim>\<open>getElementById\<close> sees it: a section element by its id, with its
  \<^verbatim>\<open>offsetTop\<close>; and the two numbers read from \<^verbatim>\<open>window\<close>.
\<close>

record element =
  offsetTop :: int

type_synonym document = "string \<rightharpoonup> element"

record window =
  scrollY :: rat
  innerHeight :: rat

text \<open>Line 14, the order in which the handler lists the sections.\<close>

definition sections :: "string list" where
  "sections = [''hero'', ''timeline'', ''metrics'', ''architecture'', ''contact'']"

text \<open>
  Lines 17 to 23: \<open>scanSections doc pos secs n\<close> runs the loop from \<^verbatim>\<open>i = n - 1\<close> down
  to \<^verbatim>\<open>0\<close> and returns the section handed to \<^verbatim>\<open>setActiveSection\<close>, if any.
\<close>

fun scanSections :: "document \<Rightarrow> rat \<Rightarrow> string list \<Rightarrow> nat \<Rightarrow> string option" where
  "scanSections doc scrollPosition secs 0 = None"
| "scanSections doc scrollPosition secs (Suc i) =
     (case doc (secs ! i) of
        Some sec \<Rightarrow>
          if of_int (offsetTop sec) \<le> scrollPosition then Some (secs ! i)
          else scanSections doc scrollPosition secs i
      | None \<Rightarrow> scanSections doc scrollPosition secs i)"

text \<open>Lines 13 to 24: the new value of the state \<^verbatim>\<open>activeSection\<close>.\<close>

definition handleScroll :: "host \<Rightarrow> document \<Rightarrow> window \<Rightarrow> string \<Rightarrow> string" where
  "handleScroll h doc w activeSection =
     (let scrollPosition = rnd h (scrollY w + rnd h (innerHeight w / 3))
      in case scanSections doc scrollPosition sections (length sections) of
           Some s \<Rightarrow> s
         | None \<Rightarrow> activeSection)"

text \<open>Lines 36 to 40: the order in which \<^verbatim>\<open>App\<close> renders the sections.\<close>

definition renderOrder :: "string list" where
  "renderOrder = [''hero'', ''metrics'', ''timeline'', ''architecture'', ''contact'']"

text \<open>
  The rule of the specification, in its words: among the sections whose top is at or
  above the threshold, the last one in document order.
\<close>

definition qualifies :: "document \<Rightarrow> rat \<Rightarrow> string \<Rightarrow> bool" where
  "qualifies doc scrollPosition s =
     (case doc s of None \<Rightarrow> False | Some sec \<Rightarrow> of_int (offsetTop sec) \<le> scrollPosition)"

definition spec_activeSection :: "document \<Rightarrow> rat \<Rightarrow> string option" where
  "spec_activeSection doc scrollPosition =
     (case filter (qualifies doc scrollPosition) renderOrder of
        [] \<Rightarrow> None
      | q # qs \<Rightarrow> Some (last (q # qs)))"


section \<open>Click-toggled selection (Architecture, Metrics, Timeline)\<close>

text \<open>
  ArchitectureSection line 80:
  \<^verbatim>\<open>setSelectedCard(selectedCard === index ? null : index)\<close>.
\<close>

definition clickCard :: "nat option \<Rightarrow> nat \<Rightarrow> nat option" where
  "clickCard selectedCard index = (if selectedCard = Some index then None else Some index)"

text \<open>
  MetricsSection line 69:
  \<^verbatim>\<open>setSelectedMetric(selectedMetric === category.title ? null : category.title)\<close>.
\<close>

definition clickMetric :: "string option \<Rightarrow> string \<Rightarrow> string option" where
  "clickMetric selectedMetric title = (if selectedMetric = Some title then None else Some title)"

text \<open>
  TimelineSection:
  \<^verbatim>\<open>setSelectedEvent(selectedEvent === index ? null : index)\<close>.
\<close>

definition clickEvent :: "nat option \<Rightarrow> nat \<Rightarrow> nat option" where
  "clickEvent selectedEvent index = (if selectedEvent = Some index then None else Some index)"

text \<open>
  What is drawn as selected: the cards (of \<open>n\<close>) with \<^verbatim>\<open>selectedCard === index\<close>, the
  categories with \<^verbatim>\<open>selectedMetric === category.title\<close>, the events (of \<open>n\<close>) with
  \<^verbatim>\<open>selectedEvent === index\<close>.
\<close>

definition metricTitles :: "string list" where
  "metricTitles = [''Scale'', ''Efficiency'', ''Innovation'']"

definition selectedCards :: "nat option \<Rightarrow> nat \<Rightarrow> nat list" where
  "selectedCards selectedCard n = filter (\<lambda>index. selectedCard = Some index) [0..<n]"

definition selectedMetrics :: "string option \<Rightarrow> string list" where
  "selectedMetrics selectedMetric = filter (\<lambda>title. selectedMetric = Some title) metricTitles"

definition selectedEvents :: "nat option \<Rightarrow> nat \<Rightarrow> nat list" where
  "selectedEvents selectedEvent n = filter (\<lambda>index. selectedEvent = Some index) [0..<n]"


section \<open>What the theorems ask of the host's rounding\<close>

text \<open>
  \<open>rounding h\<close>: rounding to a double is monotone and leaves 0 and 1 as they are.
  \<open>is_double h x\<close>: \<open>x\<close> is a double, rounding leaves it as it is. Both hold of IEEE
  round-to-nearest; \<open>exactHost\<close> is the host that computes exactly and prints the
  integer part of a number in plain digits, used to run the model on concrete inputs.
\<close>

definition rounding :: "host \<Rightarrow> bool" where
  "rounding h \<longleftrightarrow> (\<forall>x y. x \<le> y \<longrightarrow> rnd h x \<le> rnd h y) \<and> rnd h 0 = 0 \<and> rnd h 1 = 1"

definition is_double :: "host \<Rightarrow> rat \<Rightarrow> bool" where
  "is_double h x \<longleftrightarrow> rnd h x = x"

definition exactHost :: host where
  "exactHost =
     \<lparr>rnd = (\<lambda>x. x),
      numberToString = (\<lambda>x. digits (nat \<lfloor>x\<rfloor>)),
      toLocaleString = (\<lambda>x. digits (nat \<lfloor>x\<rfloor>))\<rparr>"

text \<open>
  The closed form of what the four counters show after \<open>k\<close> periods:
  \<^verbatim>\<open>Math.floor(progress * target)\<close> at \<^verbatim>\<open>progress = Math.min(k / steps, 1)\<close>.
\<close>

definition shownAt :: "host \<Rightarrow> rat stats \<Rightarrow> nat \<Rightarrow> int stats" where
  "shownAt h targets k =
     \<lparr>hero_clusters = \<lfloor>rnd h (progressAt h k * hero_clusters targets)\<rfloor>,
      linesOfCode = \<lfloor>rnd h (progressAt h k * linesOfCode targets)\<rfloor>,
      fixers = \<lfloor>rnd h (progressAt h k * fixers targets)\<rfloor>,
      accounts = \<lfloor>rnd h (progressAt h k * accounts targets)\<rfloor>\<rparr>"

section \<open>An example page\<close>

text \<open>
  A page laid out in render order, each section 900 pixels tall, for running the Scroll
  Coordinator on a concrete input.
\<close>

definition examplePage :: document where
  "examplePage =
     map_of [(''hero'', \<lparr>offsetTop = 0\<rparr>), (''metrics'', \<lparr>offsetTop = 900\<rparr>),
             (''timeline'', \<lparr>offsetTop = 1800\<rparr>), (''architecture'', \<lparr>offsetTop = 2700\<rparr>),
             (''contact'', \<lparr>offsetTop = 3600\<rparr>)]"

section \<open>An example document\<close>

text \<open>
  A master-data document with the headline numbers of the README (67 clusters, 100000
  lines of code, 31 fixers, 36 accounts), and the view-model the loader builds from it.
\<close>

definition exampleYaml :: jsval where
  "exampleYaml =
     Obj [(''career_summary'',
            Obj [(''current_role'', Str ''Senior Cloud Platform Engineer''),
                 (''company'', Str ''Las Vegas Sands Corp''),
                 (''duration'', Str ''2022-2024''),
                 (''location'', Str ''Las Vegas''),
                 (''elevator_pitch'', Str ''Platform engineering at scale'')]),
          (''platform_transformation'',
            Obj [(''before'',
                   Obj [(''clusters'', Num 1),
                        (''deployment_method'', Str ''manual''),
                        (''environment_creation_time'', Str ''weeks''),
                        (''aws_accounts'', Num 1)]),
                 (''after'',
                   Obj [(''clusters'', Num 40),
                        (''deployment_method'', Str ''GitOps''),
                        (''environment_creation_time'', Str ''hours''),
                        (''aws_accounts'', Num 30),
                        (''peak_clusters'', Num 67),
                        (''peak_accounts'', Num 36)]),
                 (''scale'', Obj [(''developers_supported'', Str ''200+'')])]),
          (''technical_achievements'',
            Obj [(''b2b_cli'',
                   Obj [(''description'', Str ''Platform CLI''),
                        (''lines_of_code'', Num 100000),
                        (''language'', Str ''Python''),
                        (''framework'', Str ''Click''),
                        (''key_features'', Arr [Str ''self-healing'', Str ''GitOps''])]),
                 (''infrastructure_architecture'',
                   Obj [(''codename'', Str ''GreenPrint''),
                        (''design_pattern'', Str ''loosely coupled stacks''),
                        (''problem_solved'', Str ''HA/DR''),
                        (''key_innovations'', Arr [])]),
                 (''metrics_and_impact'',
                   Obj [(''efficiency'',
                          Obj [(''environment_creation'', Str ''weeks to hours''),
                               (''deployment_process'', Str ''automated''),
                               (''platform_engineer_productivity'', Str ''10x'')])])]),
          (''self_healing_system'',
            Obj [(''name'', Str ''Fixers''),
                 (''total_fixers'', Num 31),
                 (''configuration'', Str ''YAML'')])]"

definition exampleData :: CareerData where
  "exampleData =
     \<lparr>career_summary =
        \<lparr>current_role = Str ''Senior Cloud Platform Engineer'',
         company = Str ''Las Vegas Sands Corp'',
         duration = Str ''2022-2024'',
         location = Str ''Las Vegas'',
         elevator_pitch = Str ''Platform engineering at scale''\<rparr>,
      platform_transformation =
        \<lparr>before =
           \<lparr>clusters = Num 1, deployment_method = Str ''manual'',
            environment_creation_time = Str ''weeks'', aws_accounts = Num 1\<rparr>,
         after =
           \<lparr>clusters = Num 40, deployment_method = Str ''GitOps'',
            environment_creation_time = Str ''hours'', aws_accounts = Num 30,
            peak_clusters = Num 67, peak_accounts = Num 36\<rparr>\<rparr>,
      technical_achievements =
        \<lparr>b2b_cli =
           \<lparr>description = Str ''Platform CLI'', lines_of_code = Num 100000,
            language = Str ''Python'', framework = Str ''Click'',
            key_features = Arr [Str ''self-healing'', Str ''GitOps'']\<rparr>,
         infrastructure_architecture =
           \<lparr>codename = Str ''GreenPrint'', design_pattern = Str ''loosely coupled stacks'',
            problem_solved = Str ''HA/DR'', key_innovations = Arr []\<rparr>,
         self_healing_system =
           Some \<lparr>name = Str ''Fixers'', total_fixers = Num 31,
                 configuration = Str ''YAML''\<rparr>\<rparr>,
      metrics_and_impact =
        \<lparr>scale =
           \<lparr>scale_clusters = Num 67, scale_aws_accounts = Num 36,
            developers_supported = Str ''200+''\<rparr>,
         efficiency =
           \<lparr>environment_creation = Str ''weeks to hours'',
            deployment_process = Str ''automated'',
            platform_engineer_productivity = Str ''10x''\<rparr>,
         reliability = \<lparr>self_healing_patterns = Num 31\<rparr>\<rparr>\<rparr>"

text \<open>
  The same document with two defects: \<^verbatim>\<open>career_summary.current_role\<close> is absent, and
  \<^verbatim>\<open>platform_transformation.before.clusters\<close> is a string where types.ts declares a
  number.
\<close>

definition exampleYaml_defective :: jsval where
  "exampleYaml_defective =
     Obj [(''career_summary'',
            Obj [(''company'', Str ''Las Vegas Sands Corp''),
                 (''duration'', Str ''2022-2024''),
                 (''location'', Str ''Las Vegas''),
                 (''elevator_pitch'', Str ''Platform engineering at scale'')]),
          (''platform_transformation'',
            Obj [(''before'',
                   Obj [(''clusters'', Str ''one''),
                        (''deployment_method'', Str ''manual''),
                        (''environment_creation_time'', Str ''weeks''),
                        (''aws_accounts'', Num 1)]),
                 (''after'',
                   Obj [(''clusters'', Num 40),
                        (''deployment_method'', Str ''GitOps''),
                        (''environment_creation_time'', Str ''hours''),
                        (''aws_accounts'', Num 30),
                        (''peak_clusters'', Num 67),
                        (''peak_accounts'', Num 36)]),
                 (''scale'', Obj [(''developers_supported'', Str ''200+'')])]),
          (''technical_achievements'',
            Obj [(''b2b_cli'',
                   Obj [(''description'', Str ''Platform CLI''),
                        (''lines_of_code'', Num 100000),
                        (''language'', Str ''Python''),
                        (''framework'', Str ''Click''),
                        (''key_features'', Arr [Str ''self-healing'', Str ''GitOps''])]),
                 (''infrastructure_architecture'',
                   Obj [(''codename'', Str ''GreenPrint''),
                        (''design_pattern'', Str ''loosely coupled stacks''),
                        (''problem_solved'', Str ''HA/DR''),
                        (''key_innovations'', Arr [])]),
                 (''metrics_and_impact'',
                   Obj [(''efficiency'',
                          Obj [(''environment_creation'', Str ''weeks to hours''),
                               (''deployment_process'', Str ''automated''),
                               (''platform_engineer_productivity'', Str ''10x'')])])]),
          (''self_healing_system'',
            Obj [(''name'', Str ''Fixers''),
                 (''total_fixers'', Num 31),
                 (''configuration'', Str ''YAML'')])]"


section \<open>Where each field of the view-model comes from\<close>

text \<open>
  The table of lines 16 to 75: every leaf of \<^verbatim>\<open>CareerData\<close> with the path of the
  document the loader reads it from. The three fields of \<^verbatim>\<open>self_healing_system\<close> come
  from the key of that name at the root of the document, the \<^verbatim>\<open>scale\<close> fields from
  \<^verbatim>\<open>platform_transformation\<close>, and \<^verbatim>\<open>self_healing_patterns\<close> from
  \<^verbatim>\<open>self_healing_system.total_fixers\<close>.
\<close>

definition fieldPaths :: "((CareerData \<Rightarrow> jsval) \<times> string list) list" where
  "fieldPaths =
     [(\<lambda>d. current_role (career_summary d), [''career_summary'', ''current_role'']),
      (\<lambda>d. company (career_summary d), [''career_summary'', ''company'']),
      (\<lambda>d. duration (career_summary d), [''career_summary'', ''duration'']),
      (\<lambda>d. location (career_summary d), [''career_summary'', ''location'']),
      (\<lambda>d. elevator_pitch (career_summary d), [''career_summary'', ''elevator_pitch'']),
      (\<lambda>d. clusters (before (platform_transformation d)),
         [''platform_transformation'', ''before'', ''clusters'']),
      (\<lambda>d. deployment_method (before (platform_transformation d)),
         [''platform_transformation'', ''before'', ''deployment_method'']),
      (\<lambda>d. environment_creation_time (before (platform_transformation d)),
         [''platform_transformation'', ''before'', ''environment_creation_time'']),
      (\<lambda>d. aws_accounts (before (platform_transformation d)),
         [''platform_transformation'', ''before'', ''aws_accounts'']),
      (\<lambda>d. clusters (after (platform_transformation d)),
         [''platform_transformation'', ''after'', ''clusters'']),
      (\<lambda>d. deployment_method (after (platform_transformation d)),
         [''platform_transformation'', ''after'', ''deployment_method'']),
      (\<lambda>d. environment_creation_time (after (platform_transformation d)),
         [''platform_transformation'', ''after'', ''environment_creation_time'']),
      (\<lambda>d. aws_accounts (after (platform_transformation d)),
         [''platform_transformation'', ''after'', ''aws_accounts'']),
      (\<lambda>d. peak_clusters (after (platform_transformation d)),
         [''platform_transformation'', ''after'', ''peak_clusters'']),
      (\<lambda>d. peak_accounts (after (platform_transformation d)),
         [''platform_transformation'', ''after'', ''peak_accounts'']),
      (\<lambda>d. description (b2b_cli (technical_achievements d)),
         [''technical_achievements'', ''b2b_cli'', ''description'']),
      (\<lambda>d. lines_of_code (b2b_cli (technical_achievements d)),
         [''technical_achievements'', ''b2b_cli'', ''lines_of_code'']),
      (\<lambda>d. language (b2b_cli (technical_achievements d)),
         [''technical_achievements'', ''b2b_cli'', ''language'']),
      (\<lambda>d. framework (b2b_cli (technical_achievements d)),
         [''technical_achievements'', ''b2b_cli'', ''framework'']),
      (\<lambda>d. key_features (b2b_cli (technical_achievements d)),
         [''technical_achievements'', ''b2b_cli'', ''key_features'']),
      (\<lambda>d. codename (infrastructure_architecture (technical_achievements d)),
         [''technical_achievements'', ''infrastructure_architecture'', ''codename'']),
      (\<lambda>d. design_pattern (infrastructure_architecture (technical_achievements d)),
         [''technical_achievements'', ''infrastructure_architecture'', ''design_pattern'']),
      (\<lambda>d. problem_solved (infrastructure_architecture (technical_achievements d)),
         [''technical_achievements'', ''infrastructure_architecture'', ''problem_solved'']),
      (\<lambda>d. key_innovations (infrastructure_architecture (technical_achievements d)),
         [''technical_achievements'', ''infrastructure_architecture'', ''key_innovations'']),
      (\<lambda>d. case self_healing_system (technical_achievements d) of
              None \<Rightarrow> Undefined | Some r \<Rightarrow> name r,
         [''self_healing_system'', ''name'']),
      (\<lambda>d. case self_healing_system (technical_achievements d) of
              None \<Rightarrow> Undefined | Some r \<Rightarrow> total_fixers r,
         [''self_healing_system'', ''total_fixers'']),
      (\<lambda>d. case self_healing_system (technical_achievements d) of
              None \<Rightarrow> Undefined | Some r \<Rightarrow> configuration r,
         [''self_healing_system'', ''configuration'']),
      (\<lambda>d. scale_clusters (scale (metrics_and_impact d)),
         [''platform_transformation'', ''after'', ''peak_clusters'']),
      (\<lambda>d. scale_aws_accounts (scale (metrics_and_impact d)),
         [''platform_transformation'', ''after'', ''peak_accounts'']),
      (\<lambda>d. developers_supported (scale (metrics_and_impact d)),
         [''platform_transformation'', ''scale'', ''developers_supported'']),
      (\<lambda>d. environment_creation (efficiency (metrics_and_impact d)),
         [''technical_achievements'', ''metrics_and_impact'', ''efficiency'',
          ''environment_creation'']),
      (\<lambda>d. deployment_process (efficiency (metrics_and_impact d)),
         [''technical_achievements'', ''metrics_and_impact'', ''efficiency'',
          ''deployment_process'']),
      (\<lambda>d. platform_engineer_productivity (efficiency (metrics_and_impact d)),
         [''technical_achievements'', ''metrics_and_impact'', ''efficiency'',
          ''platform_engineer_productivity'']),
      (\<lambda>d. self_healing_patterns (reliability (metrics_and_impact d)),
         [''self_healing_system'', ''total_fixers''])]"


section \<open>Helper lemmas\<close>

lemma bindE_Inl [simp]: "bindE (Inl e) f = Inl e"
  by (simp add: bindE_def)

lemma bindE_Inr [simp]: "bindE (Inr v) f = f v"
  by (simp add: bindE_def)

lemma bindE_eq_Inr: "bindE m f = Inr y \<longleftrightarrow> (\<exists>v. m = Inr v \<and> f v = Inr y)"
  by (cases m) simp_all

lemma bindE_eq_Inl: "bindE m f = Inl e \<longleftrightarrow> m = Inl e \<or> (\<exists>v. m = Inr v \<and> f v = Inl e)"
  by (cases m) simp_all

lemma getProp_Obj [simp]: "getProp (Obj kvs) k = Inr (lookupProp (Obj kvs) k)"
  by (simp add: getProp_def nullish_def)

lemma getProp_error: "getProp v k = Inl e \<Longrightarrow> e = TypeError"
  by (simp add: getProp_def split: if_splits)

lemma getProp_total: "\<not> nullish v \<Longrightarrow> getProp v k = Inr (lookupProp v k)"
  by (simp add: getProp_def)

lemma getPath_error: "getPath v ks = Inl e \<Longrightarrow> e = TypeError"
  by (induction ks arbitrary: v) (auto simp: bindE_eq_Inl dest: getProp_error)

lemma mapE_length: "mapE f xs = Inr ys \<Longrightarrow> length ys = length xs"
  by (induction xs arbitrary: ys) (auto simp: bindE_eq_Inr)

lemma mapE_nth: "mapE f xs = Inr ys \<Longrightarrow> i < length xs \<Longrightarrow> f (xs ! i) = Inr (ys ! i)"
proof (induction xs arbitrary: ys i)
  case Nil
  then show ?case by simp
next
  case (Cons x xs)
  from Cons.prems(1) obtain y zs
    where y: "f x = Inr y" and zs: "mapE f xs = Inr zs" and ys: "ys = y # zs"
    by (auto simp: bindE_eq_Inr)
  show ?case
  proof (cases i)
    case 0
    with y ys show ?thesis by simp
  next
    case (Suc j)
    with Cons.prems(2) have "j < length xs" by simp
    from Cons.IH [OF zs this] Suc ys show ?thesis by simp
  qed
qed

lemma mapE_total:
  "(\<And>x. x \<in> set xs \<Longrightarrow> \<exists>y. f x = Inr y) \<Longrightarrow> \<exists>ys. mapE f xs = Inr ys"
proof (induction xs)
  case Nil
  then show ?case by simp
next
  case (Cons x xs)
  then obtain y where "f x = Inr y" by auto
  moreover from Cons obtain ys where "mapE f xs = Inr ys" by auto
  ultimately show ?case by simp
qed

lemma mapE_error: "(\<And>x e. f x = Inl e \<Longrightarrow> P e) \<Longrightarrow> mapE f xs = Inl e \<Longrightarrow> P e"
  by (induction xs) (auto simp: bindE_eq_Inl)


section \<open>The Timeline Transformer: what an event becomes\<close>

lemma loadTimeline_item_total:
  "\<not> nullish item \<Longrightarrow>
   loadTimeline_item item =
     Inr \<lparr>period = lookupProp item ''period'', event = lookupProp item ''event'',
          achievements =
            (if truthy (lookupProp item ''achievements'') then lookupProp item ''achievements''
             else if truthy (lookupProp item ''state'') then Arr [lookupProp item ''state'']
             else Arr [])\<rparr>"
  by (simp add: loadTimeline_item_def getProp_total)

lemma loadTimeline_item_error: "loadTimeline_item item = Inl e \<Longrightarrow> e = TypeError"
proof (cases "nullish item")
  case True
  assume "loadTimeline_item item = Inl e"
  with True show ?thesis by (simp add: loadTimeline_item_def getProp_def)
next
  case False
  assume "loadTimeline_item item = Inl e"
  with False show ?thesis by (simp add: loadTimeline_item_total)
qed

lemma loadTimeline_parsed_error:
  assumes "loadTimeline_parsed d = Inl e"
  shows "e = TypeError"
proof (cases "getProp d ''career_timeline''")
  case (Inl e')
  with assms show ?thesis
    by (auto simp: loadTimeline_parsed_def dest: getProp_error)
next
  case (Inr ct)
  show ?thesis
  proof (cases ct)
    case (Arr items)
    with Inr assms have "mapE loadTimeline_item items = Inl e"
      by (simp add: loadTimeline_parsed_def)
    then show ?thesis
      by (rule mapE_error [rotated]) (rule loadTimeline_item_error)
  qed (use Inr assms in \<open>simp_all add: loadTimeline_parsed_def\<close>)
qed

text \<open>On a text that parses, \<open>loadTimeline\<close> is \<open>loadTimeline_parsed\<close> of the document.\<close>

lemma loadTimeline_Some:
  "JSON_parse timelineJson = Some timelineData \<Longrightarrow>
   loadTimeline JSON_parse timelineJson = loadTimeline_parsed timelineData"
  by (simp add: loadTimeline_def)

lemma loadTimeline_error:
  "loadTimeline JSON_parse timelineJson = Inl e \<Longrightarrow> e = TypeError \<or> e = SyntaxError"
  by (auto simp: loadTimeline_def dest: loadTimeline_parsed_error split: option.splits)

lemma loadTimeline_Arr:
  "JSON_parse timelineJson = Some timelineData \<Longrightarrow>
   getProp timelineData ''career_timeline'' = Inr (Arr items) \<Longrightarrow>
   loadTimeline JSON_parse timelineJson = mapE loadTimeline_item items"
  by (simp add: loadTimeline_def loadTimeline_parsed_def)

lemma loadTimeline_nth:
  assumes "JSON_parse timelineJson = Some timelineData"
    and "getProp timelineData ''career_timeline'' = Inr (Arr items)"
    and "loadTimeline JSON_parse timelineJson = Inr evs"
    and "i < length items"
  shows "length evs = length items \<and> loadTimeline_item (items ! i) = Inr (evs ! i)"
proof -
  from assms(1-3) have m: "mapE loadTimeline_item items = Inr evs"
    by (simp add: loadTimeline_Arr)
  from mapE_length [OF m] mapE_nth [OF m assms(4)] show ?thesis by simp
qed


text \<open>
  Claim C2 says that an event with neither \<^verbatim>\<open>achievements\<close> nor \<^verbatim>\<open>state\<close> makes
  \<open>loadTimeline\<close> fail with a DataShapeError. The source has no such check: line 85 ends
  in \<^verbatim>\<open>: []\<close>. On the document \<^verbatim>\<open>{career_timeline: [{period: "2024"}]}\<close> the loader
  returns one event with an empty \<^verbatim>\<open>achievements\<close> list.
\<close>

theorem loadTimeline_neither_counterexample:
  "map_of [(''period'', Str ''2024'')] ''achievements'' = None \<and>
   map_of [(''period'', Str ''2024'')] ''state'' = None \<and>
   loadTimeline_parsed (Obj [(''career_timeline'', Arr [Obj [(''period'', Str ''2024'')]])]) =
     Inr [\<lparr>period = Str ''2024'', event = Undefined, achievements = Arr []\<rparr>]"
  by (simp add: loadTimeline_parsed_def loadTimeline_item_def)

text \<open>
  Claim C2 as amended: \<open>loadTimeline\<close> never fails with a DataShapeError, whatever the
  text; and when it returns, an event that has neither \<^verbatim>\<open>achievements\<close> nor \<^verbatim>\<open>state\<close>
  has become an event whose \<^verbatim>\<open>achievements\<close> is the empty list.
\<close>

theorem loadTimeline_neither_gives_empty:
  "loadTimeline JSON_parse timelineJson \<noteq> Inl DataShapeError \<and>
   (JSON_parse timelineJson = Some timelineData \<and>
    getProp timelineData ''career_timeline'' = Inr (Arr items) \<and>
    loadTimeline JSON_parse timelineJson = Inr evs \<and>
    i < length items \<and> items ! i = Obj kvs \<and>
    map_of kvs ''achievements'' = None \<and> map_of kvs ''state'' = None
    \<longrightarrow> length evs = length items \<and> achievements (evs ! i) = Arr [])"
proof (intro conjI impI)
  show "loadTimeline JSON_parse timelineJson \<noteq> Inl DataShapeError"
    using loadTimeline_error [of JSON_parse timelineJson DataShapeError] by auto
next
  assume a: "JSON_parse timelineJson = Some timelineData \<and>
    getProp timelineData ''career_timeline'' = Inr (Arr items) \<and>
    loadTimeline JSON_parse timelineJson = Inr evs \<and>
    i < length items \<and> items ! i = Obj kvs \<and>
    map_of kvs ''achievements'' = None \<and> map_of kvs ''state'' = None"
  then have n: "length evs = length items \<and> loadTimeline_item (items ! i) = Inr (evs ! i)"
    using loadTimeline_nth [of JSON_parse timelineJson timelineData items evs i] by simp
  with a have "evs ! i = \<lparr>period = lookupProp (Obj kvs) ''period'',
      event = lookupProp (Obj kvs) ''event'', achievements = Arr []\<rparr>"
    by (simp add: loadTimeline_item_total nullish_def)
  then have "achievements (evs ! i) = Arr []" by simp
  with n show "length evs = length items" and "achievements (evs ! i) = Arr []" by simp_all
qed

theorem loadTimeline_neither_gives_empty_witness:
  "loadTimeline (\<lambda>t. Some (Obj [(''career_timeline'', Arr [Obj [(''period'', Str ''2024'')]])])) ''''
     = Inr [\<lparr>period = Str ''2024'', event = Undefined, achievements = Arr []\<rparr>] \<and>
   achievements ([\<lparr>period = Str ''2024'', event = Undefined, achievements = Arr []\<rparr>] ! 0) = Arr []"
  using loadTimeline_neither_gives_empty
    [of "\<lambda>t. Some (Obj [(''career_timeline'', Arr [Obj [(''period'', Str ''2024'')]])])" "''''"
        "Obj [(''career_timeline'', Arr [Obj [(''period'', Str ''2024'')]])]"
        "[Obj [(''period'', Str ''2024'')]]"
        "[\<lparr>period = Str ''2024'', event = Undefined, achievements = Arr []\<rparr>]"
        0 "[(''period'', Str ''2024'')]"]
  by (simp add: loadTimeline_def loadTimeline_parsed_def loadTimeline_item_def)

text \<open>
  Claim C5 says that every event which lacks \<^verbatim>\<open>achievements\<close> and has a \<^verbatim>\<open>state\<close>
  string gets a one-element list holding that string. Line 85 tests \<^verbatim>\<open>item.state\<close> for
  truthiness, and the empty string is falsy: on
  \<^verbatim>\<open>{career_timeline: [{period: "2023 Q2", state: ""}]}\<close> the list is empty.
\<close>

theorem loadTimeline_empty_state_counterexample:
  "map_of [(''period'', Str ''2023 Q2''), (''state'', Str '''')] ''achievements'' = None \<and>
   map_of [(''period'', Str ''2023 Q2''), (''state'', Str '''')] ''state'' = Some (Str '''') \<and>
   loadTimeline_parsed
     (Obj [(''career_timeline'', Arr [Obj [(''period'', Str ''2023 Q2''), (''state'', Str '''')]])]) =
     Inr [\<lparr>period = Str ''2023 Q2'', event = Undefined, achievements = Arr []\<rparr>]"
  by (simp add: loadTimeline_parsed_def loadTimeline_item_def)

text \<open>
  Claim C5 as amended: when \<open>loadTimeline\<close> returns, an event that lacks
  \<^verbatim>\<open>achievements\<close> and has a non-empty \<^verbatim>\<open>state\<close> string has become an event whose
  \<^verbatim>\<open>achievements\<close> is the list of exactly that string.
\<close>

theorem loadTimeline_wraps_state:
  assumes "JSON_parse timelineJson = Some timelineData"
    and "getProp timelineData ''career_timeline'' = Inr (Arr items)"
    and "loadTimeline JSON_parse timelineJson = Inr evs"
    and "i < length items" and "items ! i = Obj kvs"
    and "map_of kvs ''achievements'' = None"
    and "map_of kvs ''state'' = Some (Str s)" and "s \<noteq> ''''"
  shows "length evs = length items \<and> achievements (evs ! i) = Arr [Str s]"
proof -
  have n: "length evs = length items \<and> loadTimeline_item (items ! i) = Inr (evs ! i)"
    using assms(1-4) by (rule loadTimeline_nth)
  with assms(5-8) have "evs ! i = \<lparr>period = lookupProp (Obj kvs) ''period'',
      event = lookupProp (Obj kvs) ''event'', achievements = Arr [Str s]\<rparr>"
    by (simp add: loadTimeline_item_total nullish_def)
  then have "achievements (evs ! i) = Arr [Str s]" by simp
  with n show ?thesis by simp
qed

theorem loadTimeline_wraps_state_witness:
  "loadTimeline
     (\<lambda>t. Some (Obj [(''career_timeline'',
        Arr [Obj [(''period'', Str ''2023 Q2''), (''state'', Str ''GitOps V2 begins'')]])])) ''''
     = Inr [\<lparr>period = Str ''2023 Q2'', event = Undefined,
             achievements = Arr [Str ''GitOps V2 begins'']\<rparr>] \<and>
   achievements ([\<lparr>period = Str ''2023 Q2'', event = Undefined,
                   achievements = Arr [Str ''GitOps V2 begins'']\<rparr>] ! 0) =
     Arr [Str ''GitOps V2 begins'']"
  using loadTimeline_wraps_state
    [of "\<lambda>t. Some (Obj [(''career_timeline'',
           Arr [Obj [(''period'', Str ''2023 Q2''), (''state'', Str ''GitOps V2 begins'')]])])"
        "''''"
        "Obj [(''career_timeline'',
           Arr [Obj [(''period'', Str ''2023 Q2''), (''state'', Str ''GitOps V2 begins'')]])]"
        "[Obj [(''period'', Str ''2023 Q2''), (''state'', Str ''GitOps V2 begins'')]]"
        "[\<lparr>period = Str ''2023 Q2'', event = Undefined,
            achievements = Arr [Str ''GitOps V2 begins'']\<rparr>]"
        0 "[(''period'', Str ''2023 Q2''), (''state'', Str ''GitOps V2 begins'')]"
        "''GitOps V2 begins''"]
  by (simp add: loadTimeline_def loadTimeline_parsed_def loadTimeline_item_def)

text \<open>
  Claim C10: \<open>loadTimeline\<close> does not throw on the absence of \<^verbatim>\<open>achievements\<close> or
  \<^verbatim>\<open>state\<close>. On a document whose \<^verbatim>\<open>career_timeline\<close> is an array without
  \<^verbatim>\<open>null\<close> entries it returns one event for each entry, and every entry in which
  \<^verbatim>\<open>achievements\<close> is absent and \<^verbatim>\<open>state\<close> is absent or the empty string has become an
  event whose \<^verbatim>\<open>achievements\<close> is the empty list: the loader does not guarantee a
  non-empty list.
\<close>

theorem loadTimeline_total_empty_achievements:
  assumes "JSON_parse timelineJson = Some timelineData"
    and "getProp timelineData ''career_timeline'' = Inr (Arr items)"
    and "\<forall>item \<in> set items. \<not> nullish item"
  shows "\<exists>evs. loadTimeline JSON_parse timelineJson = Inr evs \<and> length evs = length items \<and>
           (\<forall>i < length items.
              lookupProp (items ! i) ''achievements'' = Undefined \<and>
              (lookupProp (items ! i) ''state'' = Undefined \<or>
               lookupProp (items ! i) ''state'' = Str '''')
              \<longrightarrow> achievements (evs ! i) = Arr [])"
proof -
  have "\<exists>evs. mapE loadTimeline_item items = Inr evs"
  proof (rule mapE_total)
    fix x assume "x \<in> set items"
    with assms(3) have "\<not> nullish x" by simp
    then show "\<exists>y. loadTimeline_item x = Inr y"
      by (simp add: loadTimeline_item_total)
  qed
  then obtain evs where m: "mapE loadTimeline_item items = Inr evs" ..
  with assms(1,2) have l: "loadTimeline JSON_parse timelineJson = Inr evs"
    by (simp add: loadTimeline_Arr)
  have "achievements (evs ! i) = Arr []"
    if i: "i < length items"
      and a: "lookupProp (items ! i) ''achievements'' = Undefined"
      and s: "lookupProp (items ! i) ''state'' = Undefined \<or>
              lookupProp (items ! i) ''state'' = Str ''''" for i
  proof -
    from i assms(3) have nn: "\<not> nullish (items ! i)" by simp
    have "loadTimeline_item (items ! i) = Inr (evs ! i)"
      by (rule mapE_nth [OF m i])
    with a s have "evs ! i = \<lparr>period = lookupProp (items ! i) ''period'',
        event = lookupProp (items ! i) ''event'', achievements = Arr []\<rparr>"
      by (auto simp: loadTimeline_item_total [OF nn])
    then show ?thesis by simp
  qed
  with l mapE_length [OF m] show ?thesis by auto
qed

theorem loadTimeline_total_empty_achievements_witness:
  "loadTimeline
     (\<lambda>t. Some (Obj [(''career_timeline'',
        Arr [Obj [(''period'', Str ''2024'')], Obj [(''period'', Str ''2025''), (''state'', Str '''')]])])) ''''
     = Inr [\<lparr>period = Str ''2024'', event = Undefined, achievements = Arr []\<rparr>,
            \<lparr>period = Str ''2025'', event = Undefined, achievements = Arr []\<rparr>]"
proof -
  let ?items = "[Obj [(''period'', Str ''2024'')], Obj [(''period'', Str ''2025''), (''state'', Str '''')]]"
  let ?doc = "Obj [(''career_timeline'', Arr ?items)]"
  have "\<forall>item \<in> set ?items. \<not> nullish item"
    by (simp add: nullish_def)
  from loadTimeline_total_empty_achievements [of "\<lambda>t. Some ?doc" "''''" ?doc ?items, OF _ _ this]
  obtain evs where e: "loadTimeline (\<lambda>t. Some ?doc) '''' = Inr evs"
    and l: "length evs = length ?items"
    and a: "\<forall>i < length ?items.
              lookupProp (?items ! i) ''achievements'' = Undefined \<and>
              (lookupProp (?items ! i) ''state'' = Undefined \<or>
               lookupProp (?items ! i) ''state'' = Str '''')
              \<longrightarrow> achievements (evs ! i) = Arr []"
    by auto
  from e show ?thesis
    by (simp add: loadTimeline_def loadTimeline_parsed_def loadTimeline_item_def)
qed

section \<open>Click-toggled selection\<close>

lemma filter_eq_upt: "filter ((=) j) [0..<n] = (if j < n then [j] else [])"
  by (induction n) auto

lemma selectedCards_Some: "selectedCards (Some j) n = (if j < n then [j] else [])"
  by (simp add: selectedCards_def filter_eq_upt)

lemma selectedEvents_Some: "selectedEvents (Some j) n = (if j < n then [j] else [])"
  by (simp add: selectedEvents_def filter_eq_upt)

lemma filter_eq_metricTitles:
  "filter ((=) t) metricTitles = (if t \<in> set metricTitles then [t] else [])"
  by (auto simp: metricTitles_def)

lemma selectedMetrics_Some:
  "selectedMetrics (Some t) = (if t \<in> set metricTitles then [t] else [])"
  by (simp add: selectedMetrics_def filter_eq_metricTitles)

lemma selectedCards_le_1: "length (selectedCards sel n) \<le> 1"
  by (cases sel) (simp_all add: selectedCards_Some, simp add: selectedCards_def)

lemma selectedEvents_le_1: "length (selectedEvents sel n) \<le> 1"
  by (cases sel) (simp_all add: selectedEvents_Some, simp add: selectedEvents_def)

lemma selectedMetrics_le_1: "length (selectedMetrics sel) \<le> 1"
  by (cases sel) (simp_all add: selectedMetrics_Some, simp add: selectedMetrics_def)

text \<open>
  Claim C8: in each of the three sections a click on the selected item sets the selection
  to none, and a click on any other item makes that item the selection; after every
  sequence of clicks, from whatever state, at most one item is drawn as selected, and
  after a click on an item other than the selected one it is the only one.
\<close>

theorem selection_toggles_single:
  "(clickCard (Some i) i = None \<and>
    (selectedCard \<noteq> Some j \<longrightarrow> clickCard selectedCard j = Some j) \<and>
    length (selectedCards (foldl clickCard selectedCard clicks) n) \<le> 1 \<and>
    selectedCards (clickCard (Some i) i) n = [] \<and>
    (selectedCard \<noteq> Some j \<and> j < n \<longrightarrow> selectedCards (clickCard selectedCard j) n = [j])) \<and>
   (clickMetric (Some t) t = None \<and>
    (selectedMetric \<noteq> Some u \<longrightarrow> clickMetric selectedMetric u = Some u) \<and>
    length (selectedMetrics (foldl clickMetric selectedMetric titles)) \<le> 1 \<and>
    selectedMetrics (clickMetric (Some t) t) = [] \<and>
    (selectedMetric \<noteq> Some u \<and> u \<in> set metricTitles \<longrightarrow>
       selectedMetrics (clickMetric selectedMetric u) = [u])) \<and>
   (clickEvent (Some i) i = None \<and>
    (selectedEvent \<noteq> Some j \<longrightarrow> clickEvent selectedEvent j = Some j) \<and>
    length (selectedEvents (foldl clickEvent selectedEvent clicks) m) \<le> 1 \<and>
    selectedEvents (clickEvent (Some i) i) m = [] \<and>
    (selectedEvent \<noteq> Some j \<and> j < m \<longrightarrow> selectedEvents (clickEvent selectedEvent j) m = [j]))"
proof (intro conjI)
  show "length (selectedCards (foldl clickCard selectedCard clicks) n) \<le> 1"
    by (rule selectedCards_le_1)
  show "length (selectedMetrics (foldl clickMetric selectedMetric titles)) \<le> 1"
    by (rule selectedMetrics_le_1)
  show "length (selectedEvents (foldl clickEvent selectedEvent clicks) m) \<le> 1"
    by (rule selectedEvents_le_1)
qed (simp_all add: clickCard_def clickMetric_def clickEvent_def selectedCards_def
       selectedMetrics_def selectedEvents_def filter_eq_upt filter_eq_metricTitles)

theorem selection_toggles_single_witness:
  "clickCard (Some 2) 2 = None \<and> clickCard (Some 2) 4 = Some 4 \<and>
   foldl clickCard None [2, 4, 4, 1] = Some 1 \<and>
   length (selectedCards (foldl clickCard None [2, 4, 4, 1]) 6) \<le> 1 \<and>
   selectedCards (clickCard (Some 2) 4) 6 = [4] \<and>
   clickMetric (Some ''Scale'') ''Scale'' = None \<and>
   clickMetric (Some ''Scale'') ''Innovation'' = Some ''Innovation'' \<and>
   length (selectedMetrics (foldl clickMetric None [''Scale'', ''Efficiency''])) \<le> 1 \<and>
   selectedMetrics (clickMetric (Some ''Scale'') ''Innovation'') = [''Innovation''] \<and>
   clickEvent (Some 0) 0 = None \<and> clickEvent (Some 0) 3 = Some 3 \<and>
   length (selectedEvents (foldl clickEvent None [0, 3]) 5) \<le> 1 \<and>
   selectedEvents (clickEvent (Some 0) 3) 5 = [3]"
  using selection_toggles_single
    [where i = 2 and selectedCard = "Some 2" and j = 4 and clicks = "[]" and n = 6
       and t = "''Scale''" and selectedMetric = "Some ''Scale''" and u = "''Innovation''"
       and titles = "[]" and selectedEvent = "Some 2" and m = 6]
    selection_toggles_single
    [where i = 0 and selectedCard = "Some 0" and j = 3 and clicks = "[]" and n = 5
       and t = "''Scale''" and selectedMetric = None and u = "''Innovation''"
       and titles = "[''Scale'', ''Efficiency'']" and selectedEvent = "Some 0" and m = 5]
    selection_toggles_single
    [where i = 0 and selectedCard = None and j = 3 and clicks = "[2, 4, 4, 1]" and n = 6
       and t = "''Scale''" and selectedMetric = None and u = "''Innovation''"
       and titles = "[]" and selectedEvent = None and m = 5]
    selection_toggles_single
    [where i = 0 and selectedCard = None and j = 3 and clicks = "[0, 3]" and n = 6
       and t = "''Scale''" and selectedMetric = None and u = "''Innovation''"
       and titles = "[]" and selectedEvent = None and m = 5]
  by (simp add: metricTitles_def clickCard_def clickMetric_def clickEvent_def)

section \<open>The Scroll Coordinator\<close>

lemma scanSections_Suc:
  "scanSections doc pos secs (Suc i) =
     (if qualifies doc pos (secs ! i) then Some (secs ! i) else scanSections doc pos secs i)"
  by (simp add: qualifies_def split: option.splits)

lemma scanSections_sections:
  "scanSections doc pos sections (length sections) =
     (if qualifies doc pos ''contact'' then Some ''contact''
      else if qualifies doc pos ''architecture'' then Some ''architecture''
      else if qualifies doc pos ''metrics'' then Some ''metrics''
      else if qualifies doc pos ''timeline'' then Some ''timeline''
      else if qualifies doc pos ''hero'' then Some ''hero''
      else None)"
  by (simp add: sections_def scanSections_Suc del: scanSections.simps(2))

text \<open>
  The handler lists \<^verbatim>\<open>'timeline'\<close> before \<^verbatim>\<open>'metrics'\<close> and scans its list from the end,
  so it reports \<^verbatim>\<open>'timeline'\<close> only when \<^verbatim>\<open>'metrics'\<close> does not qualify.
\<close>

lemma handleScroll_timeline_needs_no_metrics:
  assumes "handleScroll h doc w activeSection = ''timeline''" and "activeSection \<noteq> ''timeline''"
  shows "\<not> qualifies doc (rnd h (scrollY w + rnd h (innerHeight w / 3))) ''metrics''"
proof
  assume "qualifies doc (rnd h (scrollY w + rnd h (innerHeight w / 3))) ''metrics''"
  with assms show False
    by (simp add: handleScroll_def scanSections_sections Let_def split: if_splits)
qed

text \<open>
  Claim C1 fails on the code. On the example page with \<^verbatim>\<open>scrollY = 1600\<close> and
  \<^verbatim>\<open>innerHeight = 900\<close> the threshold is 1900: the tops of Hero (0), Metrics (900) and
  Timeline (1800) are at or above it, those of Architecture (2700) and Contact (3600)
  are not. Timeline is the last qualifying section in document order, and the handler
  reports Metrics.
\<close>

theorem handleScroll_reports_metrics_not_timeline:
  "rnd exactHost (1600 + rnd exactHost (900 / 3)) = 1900 \<and>
   qualifies examplePage 1900 ''metrics'' \<and> qualifies examplePage 1900 ''timeline'' \<and>
   \<not> qualifies examplePage 1900 ''architecture'' \<and> \<not> qualifies examplePage 1900 ''contact'' \<and>
   spec_activeSection examplePage 1900 = Some ''timeline'' \<and>
   handleScroll exactHost examplePage \<lparr>scrollY = 1600, innerHeight = 900\<rparr> ''hero'' = ''metrics''"
  by code_simp

section \<open>The Counter Animator\<close>

lemma floor_divide_numeral_rat:
  "\<lfloor>numeral a / numeral b :: rat\<rfloor> = numeral a div numeral b"
  by (metis floor_divide_of_int_eq of_int_numeral)

lemma rounding_exactHost: "rounding exactHost"
  by (simp add: rounding_def exactHost_def)

lemma is_double_exactHost: "is_double exactHost x"
  by (simp add: is_double_def exactHost_def)

lemma rnd_exactHost: "rnd exactHost x = x"
  by (simp add: exactHost_def)

lemma afterTicks_0: "afterTicks h targets 0 = heroInit"
  by (simp add: afterTicks_def)

lemma afterTicks_Suc: "afterTicks h targets (Suc n) = tick h targets (afterTicks h targets n)"
  by (simp add: afterTicks_def)

lemma tick_active:
  "timerActive s \<Longrightarrow>
   tick h targets s =
     \<lparr>currentStep = Suc (currentStep s),
      animatedStats = shownAt h targets (Suc (currentStep s)),
      timerActive = (progressAt h (Suc (currentStep s)) \<noteq> 1)\<rparr>"
  by (simp add: tick_def shownAt_def Let_def)

lemma tick_stopped: "\<not> timerActive s \<Longrightarrow> tick h targets s = s"
  by (simp add: tick_def)

lemma progressAt_mono:
  assumes "rounding h" and "i \<le> j"
  shows "progressAt h i \<le> progressAt h j"
proof -
  have "(of_nat i :: rat) / of_nat steps \<le> of_nat j / of_nat steps"
    using assms(2) by (simp add: divide_right_mono)
  with assms(1) have "rnd h (of_nat i / of_nat steps) \<le> rnd h (of_nat j / of_nat steps)"
    by (simp add: rounding_def)
  then show ?thesis
    unfolding progressAt_def by (rule min.mono) simp
qed

lemma progressAt_le_1: "progressAt h k \<le> 1"
  by (simp add: progressAt_def)

lemma progressAt_steps: "rounding h \<Longrightarrow> progressAt h steps = 1"
  by (simp add: progressAt_def steps_def rounding_def)

lemma progressAt_0: "rounding h \<Longrightarrow> progressAt h 0 = 0"
  by (simp add: progressAt_def rounding_def)

lemma progressAt_ge_0:
  assumes "rounding h"
  shows "0 \<le> progressAt h k"
  using progressAt_mono [OF assms, of 0 k] progressAt_0 [OF assms] by simp

text \<open>
  The invariant of the timer: while it is set, \<^verbatim>\<open>currentStep\<close> counts the periods; once
  it is cleared, the progress has reached 1. Either way the counters show the closed
  form.
\<close>

lemma afterTicks_invariant:
  assumes r: "rounding h"
  shows "(timerActive (afterTicks h targets k) \<longrightarrow>
            currentStep (afterTicks h targets k) = k \<and>
            (0 < k \<longrightarrow> progressAt h k \<noteq> 1 \<and>
               animatedStats (afterTicks h targets k) = shownAt h targets k)) \<and>
         (\<not> timerActive (afterTicks h targets k) \<longrightarrow>
            0 < k \<and> progressAt h k = 1 \<and>
            animatedStats (afterTicks h targets k) = shownAt h targets k)"
proof (induction k)
  case 0
  show ?case by (simp add: afterTicks_0 heroInit_def)
next
  case (Suc k)
  let ?s = "afterTicks h targets k"
  show ?case
  proof (cases "timerActive ?s")
    case True
    with Suc have "currentStep ?s = k" by simp
    with True show ?thesis
      by (simp add: afterTicks_Suc tick_active)
  next
    case False
    with Suc have k: "0 < k" "progressAt h k = 1"
      and st: "animatedStats ?s = shownAt h targets k" by simp_all
    have "progressAt h k \<le> progressAt h (Suc k)"
      by (rule progressAt_mono [OF r]) simp
    with k progressAt_le_1 [of h "Suc k"] have p: "progressAt h (Suc k) = 1" by simp
    with k have "shownAt h targets (Suc k) = shownAt h targets k"
      by (simp add: shownAt_def)
    with False st p show ?thesis
      by (simp add: afterTicks_Suc tick_stopped)
  qed
qed

lemma shownAt_0:
  "rounding h \<Longrightarrow>
   shownAt h targets 0 = \<lparr>hero_clusters = 0, linesOfCode = 0, fixers = 0, accounts = 0\<rparr>"
  by (simp add: shownAt_def progressAt_0) (simp add: rounding_def)

lemma animatedStats_afterTicks:
  assumes r: "rounding h"
  shows "animatedStats (afterTicks h targets k) = shownAt h targets k"
proof (cases "k = 0")
  case True
  then show ?thesis by (simp add: shownAt_0 [OF r] afterTicks_0 heroInit_def)
next
  case False
  with afterTicks_invariant [OF r, of targets k] show ?thesis
    by (cases "timerActive (afterTicks h targets k)") simp_all
qed

lemma timer_stops:
  assumes r: "rounding h"
  shows "\<not> timerActive (afterTicks h targets steps)"
proof
  assume "timerActive (afterTicks h targets steps)"
  with afterTicks_invariant [OF r, of targets steps]
  have "0 < steps \<longrightarrow> progressAt h steps \<noteq> 1" by simp
  with progressAt_steps [OF r] show False
    by (simp add: steps_def)
qed

lemma stopped_stays:
  "\<not> timerActive (afterTicks h targets n) \<Longrightarrow>
   afterTicks h targets (n + k) = afterTicks h targets n"
  by (induction k) (simp_all add: afterTicks_Suc tick_stopped)

lemma floor_scaled_mono:
  assumes r: "rounding h" and "i \<le> j" and "0 \<le> t"
  shows "\<lfloor>rnd h (progressAt h i * t)\<rfloor> \<le> \<lfloor>rnd h (progressAt h j * t)\<rfloor>"
proof -
  have "progressAt h i * t \<le> progressAt h j * t"
    using progressAt_mono [OF r assms(2)] assms(3) by (rule mult_right_mono)
  with r have "rnd h (progressAt h i * t) \<le> rnd h (progressAt h j * t)"
    by (simp add: rounding_def)
  then show ?thesis by (rule floor_mono)
qed

lemma floor_scaled_0: "rounding h \<Longrightarrow> \<lfloor>rnd h (progressAt h 0 * t)\<rfloor> = 0"
  by (simp add: progressAt_0) (simp add: rounding_def)

lemma floor_scaled_final:
  "rounding h \<Longrightarrow> is_double h (of_int T) \<Longrightarrow> \<lfloor>rnd h (progressAt h steps * of_int T)\<rfloor> = T"
  by (simp add: progressAt_steps is_double_def)

text \<open>One counter: the closed form starts at 0, never decreases and ends at the target.\<close>

lemma closed_form_counts_up:
  assumes r: "rounding h" and "0 \<le> T" and "is_double h (of_int T)"
  shows "counts_up_to (\<lambda>k. \<lfloor>rnd h (progressAt h k * of_int T)\<rfloor>) T"
  unfolding counts_up_to_def
proof (intro conjI allI impI)
  show "\<lfloor>rnd h (progressAt h 0 * of_int T)\<rfloor> = 0"
    by (rule floor_scaled_0 [OF r])
  show "\<lfloor>rnd h (progressAt h steps * of_int T)\<rfloor> = T"
    by (rule floor_scaled_final [OF r assms(3)])
  show "\<lfloor>rnd h (progressAt h i * of_int T)\<rfloor> \<le> \<lfloor>rnd h (progressAt h j * of_int T)\<rfloor>"
    if "i \<le> j" for i j
    using r that by (rule floor_scaled_mono) (simp add: assms(2))
qed

text \<open>
  Claim C4. For a rounding that is monotone and exact on 0 and 1, and four targets that
  are integers \<open>T \<ge> 0\<close> (and doubles), what the counters show after \<open>k\<close> periods of the
  timer is \<^verbatim>\<open>Math.floor(progress * T)\<close> at \<^verbatim>\<open>progress = Math.min(k / 60, 1)\<close>, a
  number between 0 and 1; each
  counter starts at 0, never decreases, and shows exactly \<open>T\<close> after 60 periods, when the
  timer is cleared and the state no longer changes.
\<close>

theorem counter_animator_counts_up:
  assumes "rounding h"
    and "targets = \<lparr>hero_clusters = of_int Tc, linesOfCode = of_int Tl,
                     fixers = of_int Tf, accounts = of_int Ta\<rparr>"
    and "0 \<le> Tc \<and> 0 \<le> Tl \<and> 0 \<le> Tf \<and> 0 \<le> Ta"
    and "is_double h (of_int Tc) \<and> is_double h (of_int Tl) \<and>
         is_double h (of_int Tf) \<and> is_double h (of_int Ta)"
  shows "(\<forall>k. animatedStats (afterTicks h targets k) = shownAt h targets k) \<and>
         (\<forall>k. 0 \<le> progressAt h k \<and> progressAt h k \<le> 1) \<and>
         counts_up_to (\<lambda>k. hero_clusters (animatedStats (afterTicks h targets k))) Tc \<and>
         counts_up_to (\<lambda>k. linesOfCode (animatedStats (afterTicks h targets k))) Tl \<and>
         counts_up_to (\<lambda>k. fixers (animatedStats (afterTicks h targets k))) Tf \<and>
         counts_up_to (\<lambda>k. accounts (animatedStats (afterTicks h targets k))) Ta \<and>
         \<not> timerActive (afterTicks h targets steps) \<and>
         (\<forall>k. afterTicks h targets (steps + k) = afterTicks h targets steps)"
proof -
  note r = assms(1)
  have cf: "animatedStats (afterTicks h targets k) = shownAt h targets k" for k
    by (rule animatedStats_afterTicks [OF r])
  have stop: "\<not> timerActive (afterTicks h targets steps)"
    by (rule timer_stops [OF r])
  from assms(2) have t: "hero_clusters targets = of_int Tc" "linesOfCode targets = of_int Tl"
    "fixers targets = of_int Tf" "accounts targets = of_int Ta"
    by simp_all
  have "counts_up_to (\<lambda>k. hero_clusters (animatedStats (afterTicks h targets k))) Tc"
    using closed_form_counts_up [OF r, of Tc] assms(3,4) by (simp add: cf shownAt_def t)
  moreover have "counts_up_to (\<lambda>k. linesOfCode (animatedStats (afterTicks h targets k))) Tl"
    using closed_form_counts_up [OF r, of Tl] assms(3,4) by (simp add: cf shownAt_def t)
  moreover have "counts_up_to (\<lambda>k. fixers (animatedStats (afterTicks h targets k))) Tf"
    using closed_form_counts_up [OF r, of Tf] assms(3,4) by (simp add: cf shownAt_def t)
  moreover have "counts_up_to (\<lambda>k. accounts (animatedStats (afterTicks h targets k))) Ta"
    using closed_form_counts_up [OF r, of Ta] assms(3,4) by (simp add: cf shownAt_def t)
  ultimately show ?thesis
    using cf stop stopped_stays [OF stop] progressAt_ge_0 [OF r] progressAt_le_1 by simp
qed

theorem counter_animator_counts_up_witness:
  "rounding exactHost \<and>
   counts_up_to (\<lambda>k. hero_clusters (animatedStats (afterTicks exactHost
      \<lparr>hero_clusters = 67, linesOfCode = 100000, fixers = 31, accounts = 36\<rparr> k))) 67 \<and>
   counts_up_to (\<lambda>k. linesOfCode (animatedStats (afterTicks exactHost
      \<lparr>hero_clusters = 67, linesOfCode = 100000, fixers = 31, accounts = 36\<rparr> k))) 100000 \<and>
   counts_up_to (\<lambda>k. fixers (animatedStats (afterTicks exactHost
      \<lparr>hero_clusters = 67, linesOfCode = 100000, fixers = 31, accounts = 36\<rparr> k))) 31 \<and>
   counts_up_to (\<lambda>k. accounts (animatedStats (afterTicks exactHost
      \<lparr>hero_clusters = 67, linesOfCode = 100000, fixers = 31, accounts = 36\<rparr> k))) 36 \<and>
   animatedStats (afterTicks exactHost
      \<lparr>hero_clusters = 67, linesOfCode = 100000, fixers = 31, accounts = 36\<rparr> 30) =
     \<lparr>hero_clusters = 33, linesOfCode = 50000, fixers = 15, accounts = 18\<rparr> \<and>
   animatedStats (afterTicks exactHost
      \<lparr>hero_clusters = 67, linesOfCode = 100000, fixers = 31, accounts = 36\<rparr> 60) =
     \<lparr>hero_clusters = 67, linesOfCode = 100000, fixers = 31, accounts = 36\<rparr>"
proof -
  let ?t = "\<lparr>hero_clusters = 67, linesOfCode = 100000, fixers = 31, accounts = 36\<rparr> :: rat stats"
  have c: "(\<forall>k. animatedStats (afterTicks exactHost ?t k) = shownAt exactHost ?t k) \<and>
      (\<forall>k. 0 \<le> progressAt exactHost k \<and> progressAt exactHost k \<le> 1) \<and>
      counts_up_to (\<lambda>k. hero_clusters (animatedStats (afterTicks exactHost ?t k))) 67 \<and>
      counts_up_to (\<lambda>k. linesOfCode (animatedStats (afterTicks exactHost ?t k))) 100000 \<and>
      counts_up_to (\<lambda>k. fixers (animatedStats (afterTicks exactHost ?t k))) 31 \<and>
      counts_up_to (\<lambda>k. accounts (animatedStats (afterTicks exactHost ?t k))) 36 \<and>
      \<not> timerActive (afterTicks exactHost ?t steps) \<and>
      (\<forall>k. afterTicks exactHost ?t (steps + k) = afterTicks exactHost ?t steps)"
    by (rule counter_animator_counts_up [OF rounding_exactHost, of _ 67 100000 31 36])
      (simp_all add: is_double_exactHost)
  then have cf: "animatedStats (afterTicks exactHost ?t k) = shownAt exactHost ?t k" for k
    by blast
  have v: "animatedStats (afterTicks exactHost ?t 30) =
        \<lparr>hero_clusters = 33, linesOfCode = 50000, fixers = 15, accounts = 18\<rparr>"
      "animatedStats (afterTicks exactHost ?t 60) =
        \<lparr>hero_clusters = 67, linesOfCode = 100000, fixers = 31, accounts = 36\<rparr>"
    by (simp_all add: cf shownAt_def progressAt_def steps_def rnd_exactHost
        floor_divide_numeral_rat)
  from c v rounding_exactHost show ?thesis by blast
qed

section \<open>Number formatting and the Hero targets\<close>

lemma digits_100: "digits 100 = ''100''"
  by code_simp

lemma toFixed0_of_nat:
  assumes "n < 10 ^ 24"
  shows "toFixed0 h (of_nat n / 1000) = digits ((n + 500) div 1000)"
proof -
  have "(of_nat n :: rat) < of_nat (10 ^ 24)"
    using assms by (simp only: of_nat_less_iff)
  then have small: "\<not> (10 :: rat) ^ 21 \<le> of_nat n / 1000"
    by simp
  have "(of_nat n :: rat) / 1000 + 1 / 2 = of_nat (n + 500) / of_nat 1000"
    by simp
  then have "\<lfloor>(of_nat n :: rat) / 1000 + 1 / 2\<rfloor> = int ((n + 500) div 1000)"
    by (simp only: floor_divide_of_nat_eq)
  with small show ?thesis
    by (simp add: toFixed0_def)
qed

lemma linesOfCode_heroTargets:
  "linesOfCode (heroTargets data) = lines_of_code (b2b_cli (technical_achievements data))"
  by (simp add: heroTargets_def)

lemma numericTargets_linesOfCode:
  "numericTargets t = Some targets \<Longrightarrow> linesOfCode t = Num x \<Longrightarrow> linesOfCode targets = x"
  by (auto simp: numericTargets_def split: option.splits)


text \<open>
  Claim C6. \<open>formatNumber\<close> renders a value at or above the loaded \<^verbatim>\<open>lines_of_code\<close>
  as \<^verbatim>\<open>(num / 1000).toFixed(0)\<close> followed by \<open>k\<close>: for a natural number \<open>n\<close> whose
  quotient by 1000 is a double these are the digits of \<open>n / 1000\<close> rounded to the nearest
  integer. Every other value is handed to the host's \<^verbatim>\<open>toLocaleString\<close>. When the
  loaded \<^verbatim>\<open>lines_of_code\<close> is 100000, the text of the Lines of Code card after the 60
  steps is \<open>100k\<close>.
\<close>

theorem formatNumber_rule:
  "(lines_of_code_value \<le> num \<longrightarrow>
      formatNumber h lines_of_code_value num = toFixed0 h (rnd h (num / 1000)) @ ''k'') \<and>
   (lines_of_code_value \<le> of_nat n \<and> n < 10 ^ 24 \<and> is_double h (of_nat n / 1000) \<longrightarrow>
      formatNumber h lines_of_code_value (of_nat n) = digits ((n + 500) div 1000) @ ''k'') \<and>
   (num < lines_of_code_value \<longrightarrow>
      formatNumber h lines_of_code_value num = toLocaleString h num) \<and>
   (rounding h \<and> is_double h 100 \<and> is_double h 100000 \<and>
    lines_of_code (b2b_cli (technical_achievements data)) = Num 100000 \<and>
    numericTargets (heroTargets data) = Some targets \<longrightarrow>
      linesOfCodeText h 100000 (afterTicks h targets steps) = ''100k'')"
proof (intro conjI impI)
  assume "lines_of_code_value \<le> num"
  then show "formatNumber h lines_of_code_value num = toFixed0 h (rnd h (num / 1000)) @ ''k''"
    by (simp add: formatNumber_def)
next
  assume a: "lines_of_code_value \<le> of_nat n \<and> n < 10 ^ 24 \<and> is_double h (of_nat n / 1000)"
  then have e: "rnd h (of_nat n / 1000) = of_nat n / 1000"
    unfolding is_double_def by blast
  from a have "formatNumber h lines_of_code_value (of_nat n) =
      toFixed0 h (rnd h (of_nat n / 1000)) @ ''k''"
    by (simp add: formatNumber_def)
  also have "\<dots> = toFixed0 h (of_nat n / 1000) @ ''k''"
    by (simp only: e)
  also from a have "\<dots> = digits ((n + 500) div 1000) @ ''k''"
    by (simp only: toFixed0_of_nat)
  finally show "formatNumber h lines_of_code_value (of_nat n) = digits ((n + 500) div 1000) @ ''k''" .
next
  assume "num < lines_of_code_value"
  then show "formatNumber h lines_of_code_value num = toLocaleString h num"
    by (simp add: formatNumber_def)
next
  assume a: "rounding h \<and> is_double h 100 \<and> is_double h 100000 \<and>
    lines_of_code (b2b_cli (technical_achievements data)) = Num 100000 \<and>
    numericTargets (heroTargets data) = Some targets"
  then have r: "rounding h" and d: "rnd h 100 = 100" "is_double h (of_int 100000)"
    by (simp_all add: is_double_def)
  from a have nt: "numericTargets (heroTargets data) = Some targets"
    by blast
  moreover from a have "linesOfCode (heroTargets data) = Num 100000"
    by (simp only: linesOfCode_heroTargets)
  ultimately have "linesOfCode targets = 100000"
    by (rule numericTargets_linesOfCode)
  then have t: "linesOfCode targets = of_int 100000"
    by simp
  have "linesOfCode (animatedStats (afterTicks h targets steps)) = 100000"
    using floor_scaled_final [OF r d(2)]
    by (simp add: animatedStats_afterTicks [OF r] shownAt_def t)
  moreover have "toFixed0 h 100 = ''100''"
    using toFixed0_of_nat [of 100000 h] by (simp add: digits_100)
  ultimately show "linesOfCodeText h 100000 (afterTicks h targets steps) = ''100k''"
    by (simp add: linesOfCodeText_def formatNumber_def d(1))
qed

lemma numericTargets_exampleData:
  "numericTargets (heroTargets exampleData) =
     Some \<lparr>hero_clusters = 67, linesOfCode = 100000, fixers = 31, accounts = 36\<rparr>"
  by (simp add: numericTargets_def heroTargets_def exampleData_def js_or_def)

theorem formatNumber_rule_witness:
  "formatNumber exactHost 100000 100000 = ''100k'' \<and>
   formatNumber exactHost 100000 99499 = toLocaleString exactHost 99499 \<and>
   formatNumber exactHost 1000 1500 = ''2k'' \<and>
   linesOfCodeText exactHost 100000
     (afterTicks exactHost
        \<lparr>hero_clusters = 67, linesOfCode = 100000, fixers = 31, accounts = 36\<rparr> steps) = ''100k''"
proof -
  have d: "digits 100 = ''100''" "digits 2 = ''2''"
    by code_simp+
  have e: "lines_of_code (b2b_cli (technical_achievements exampleData)) = Num 100000"
    by (simp add: exampleData_def)
  note t = numericTargets_exampleData
  from formatNumber_rule [of 100000 99499 exactHost 100000 exampleData
      "\<lparr>hero_clusters = 67, linesOfCode = 100000, fixers = 31, accounts = 36\<rparr>"]
  have a: "formatNumber exactHost 100000 100000 = ''100k''"
    and c: "formatNumber exactHost 100000 99499 = toLocaleString exactHost 99499"
    and b: "linesOfCodeText exactHost 100000
     (afterTicks exactHost
        \<lparr>hero_clusters = 67, linesOfCode = 100000, fixers = 31, accounts = 36\<rparr> steps) = ''100k''"
    using e t by (simp_all add: is_double_exactHost rounding_exactHost d)
  from formatNumber_rule [of 1000 0 exactHost 1500 exampleData undefined]
  have f: "formatNumber exactHost 1000 1500 = ''2k''"
    by (simp add: is_double_exactHost d)
  from a b c f show ?thesis by simp
qed



section \<open>The View-Model Loader\<close>

lemma load_career_summary_Inr:
  "load_career_summary y = Inr c \<longleftrightarrow>
     getPath y [''career_summary'', ''current_role''] = Inr (current_role c) \<and>
     getPath y [''career_summary'', ''company''] = Inr (company c) \<and>
     getPath y [''career_summary'', ''duration''] = Inr (duration c) \<and>
     getPath y [''career_summary'', ''location''] = Inr (location c) \<and>
     getPath y [''career_summary'', ''elevator_pitch''] = Inr (elevator_pitch c)"
  unfolding load_career_summary_def bindE_eq_Inr by (cases c) auto

lemma load_before_Inr:
  "load_before y = Inr c \<longleftrightarrow>
     getPath y [''platform_transformation'', ''before'', ''clusters''] = Inr (clusters c) \<and>
     getPath y [''platform_transformation'', ''before'', ''deployment_method''] =
       Inr (deployment_method c) \<and>
     getPath y [''platform_transformation'', ''before'', ''environment_creation_time''] =
       Inr (environment_creation_time c) \<and>
     getPath y [''platform_transformation'', ''before'', ''aws_accounts''] = Inr (aws_accounts c)"
  unfolding load_before_def bindE_eq_Inr by (cases c) auto

lemma load_after_Inr:
  "load_after y = Inr c \<longleftrightarrow>
     getPath y [''platform_transformation'', ''after'', ''clusters''] = Inr (clusters c) \<and>
     getPath y [''platform_transformation'', ''after'', ''deployment_method''] =
       Inr (deployment_method c) \<and>
     getPath y [''platform_transformation'', ''after'', ''environment_creation_time''] =
       Inr (environment_creation_time c) \<and>
     getPath y [''platform_transformation'', ''after'', ''aws_accounts''] = Inr (aws_accounts c) \<and>
     getPath y [''platform_transformation'', ''after'', ''peak_clusters''] = Inr (peak_clusters c) \<and>
     getPath y [''platform_transformation'', ''after'', ''peak_accounts''] = Inr (peak_accounts c)"
  unfolding load_after_def bindE_eq_Inr by (cases c) auto

lemma load_b2b_cli_Inr:
  "load_b2b_cli y = Inr c \<longleftrightarrow>
     getPath y [''technical_achievements'', ''b2b_cli'', ''description''] = Inr (description c) \<and>
     getPath y [''technical_achievements'', ''b2b_cli'', ''lines_of_code''] =
       Inr (lines_of_code c) \<and>
     getPath y [''technical_achievements'', ''b2b_cli'', ''language''] = Inr (language c) \<and>
     getPath y [''technical_achievements'', ''b2b_cli'', ''framework''] = Inr (framework c) \<and>
     getPath y [''technical_achievements'', ''b2b_cli'', ''key_features''] = Inr (key_features c)"
  unfolding load_b2b_cli_def bindE_eq_Inr by (cases c) auto

lemma load_infrastructure_architecture_Inr:
  "load_infrastructure_architecture y = Inr c \<longleftrightarrow>
     getPath y [''technical_achievements'', ''infrastructure_architecture'', ''codename''] =
       Inr (codename c) \<and>
     getPath y [''technical_achievements'', ''infrastructure_architecture'', ''design_pattern''] =
       Inr (design_pattern c) \<and>
     getPath y [''technical_achievements'', ''infrastructure_architecture'', ''problem_solved''] =
       Inr (problem_solved c) \<and>
     getPath y [''technical_achievements'', ''infrastructure_architecture'', ''key_innovations''] =
       Inr (key_innovations c)"
  unfolding load_infrastructure_architecture_def bindE_eq_Inr by (cases c) auto

lemma load_self_healing_system_Inr:
  "load_self_healing_system y = Inr c \<longleftrightarrow>
     getPath y [''self_healing_system'', ''name''] = Inr (name c) \<and>
     getPath y [''self_healing_system'', ''total_fixers''] = Inr (total_fixers c) \<and>
     getPath y [''self_healing_system'', ''configuration''] = Inr (configuration c)"
  unfolding load_self_healing_system_def bindE_eq_Inr by (cases c) auto

lemma load_scale_Inr:
  "load_scale y = Inr c \<longleftrightarrow>
     getPath y [''platform_transformation'', ''after'', ''peak_clusters''] =
       Inr (scale_clusters c) \<and>
     getPath y [''platform_transformation'', ''after'', ''peak_accounts''] =
       Inr (scale_aws_accounts c) \<and>
     getPath y [''platform_transformation'', ''scale'', ''developers_supported''] =
       Inr (developers_supported c)"
  unfolding load_scale_def bindE_eq_Inr by (cases c) auto

lemma load_efficiency_Inr:
  "load_efficiency y = Inr c \<longleftrightarrow>
     getPath y [''technical_achievements'', ''metrics_and_impact'', ''efficiency'',
                ''environment_creation''] = Inr (environment_creation c) \<and>
     getPath y [''technical_achievements'', ''metrics_and_impact'', ''efficiency'',
                ''deployment_process''] = Inr (deployment_process c) \<and>
     getPath y [''technical_achievements'', ''metrics_and_impact'', ''efficiency'',
                ''platform_engineer_productivity''] = Inr (platform_engineer_productivity c)"
  unfolding load_efficiency_def bindE_eq_Inr by (cases c) auto

lemma load_reliability_Inr:
  "load_reliability y = Inr c \<longleftrightarrow>
     getPath y [''self_healing_system'', ''total_fixers''] = Inr (self_healing_patterns c)"
  unfolding load_reliability_def bindE_eq_Inr by (cases c) auto

lemma load_platform_transformation_Inr:
  "load_platform_transformation y = Inr c \<longleftrightarrow>
     load_before y = Inr (before c) \<and> load_after y = Inr (after c)"
  unfolding load_platform_transformation_def bindE_eq_Inr by (cases c) auto

lemma load_technical_achievements_Inr:
  "load_technical_achievements y = Inr c \<longleftrightarrow>
     load_b2b_cli y = Inr (b2b_cli c) \<and>
     load_infrastructure_architecture y = Inr (infrastructure_architecture c) \<and>
     (\<exists>r. self_healing_system c = Some r \<and> load_self_healing_system y = Inr r)"
  unfolding load_technical_achievements_def bindE_eq_Inr by (cases c) auto

lemma load_metrics_and_impact_Inr:
  "load_metrics_and_impact y = Inr c \<longleftrightarrow>
     load_scale y = Inr (scale c) \<and> load_efficiency y = Inr (efficiency c) \<and>
     load_reliability y = Inr (reliability c)"
  unfolding load_metrics_and_impact_def bindE_eq_Inr by (cases c) auto

lemma buildCareerData_Inr:
  "buildCareerData y = Inr d \<longleftrightarrow>
     load_career_summary y = Inr (career_summary d) \<and>
     load_platform_transformation y = Inr (platform_transformation d) \<and>
     load_technical_achievements y = Inr (technical_achievements d) \<and>
     load_metrics_and_impact y = Inr (metrics_and_impact d)"
  unfolding buildCareerData_def bindE_eq_Inr by (cases d) auto

lemma bindE_ok: "\<exists>v. m = Inr v \<Longrightarrow> (\<And>v. \<exists>w. f v = Inr w) \<Longrightarrow> \<exists>w. bindE m f = Inr w"
  by auto

lemma bindE_error:
  "(\<And>e. m = Inl e \<Longrightarrow> P e) \<Longrightarrow> (\<And>v e. f v = Inl e \<Longrightarrow> P e) \<Longrightarrow> bindE m f = Inl e \<Longrightarrow> P e"
  by (cases m) auto

lemmas bindE_TypeError = bindE_error [where P = "\<lambda>e. e = TypeError", rotated 2]

lemma load_career_summary_error: "load_career_summary y = Inl e \<Longrightarrow> e = TypeError"
  unfolding load_career_summary_def by (elim bindE_TypeError getPath_error) simp

lemma load_before_error: "load_before y = Inl e \<Longrightarrow> e = TypeError"
  unfolding load_before_def by (elim bindE_TypeError getPath_error) simp

lemma load_after_error: "load_after y = Inl e \<Longrightarrow> e = TypeError"
  unfolding load_after_def by (elim bindE_TypeError getPath_error) simp

lemma load_platform_transformation_error:
  "load_platform_transformation y = Inl e \<Longrightarrow> e = TypeError"
  unfolding load_platform_transformation_def
  by (elim bindE_TypeError load_before_error load_after_error) simp

lemma load_b2b_cli_error: "load_b2b_cli y = Inl e \<Longrightarrow> e = TypeError"
  unfolding load_b2b_cli_def by (elim bindE_TypeError getPath_error) simp

lemma load_infrastructure_architecture_error:
  "load_infrastructure_architecture y = Inl e \<Longrightarrow> e = TypeError"
  unfolding load_infrastructure_architecture_def by (elim bindE_TypeError getPath_error) simp

lemma load_self_healing_system_error: "load_self_healing_system y = Inl e \<Longrightarrow> e = TypeError"
  unfolding load_self_healing_system_def by (elim bindE_TypeError getPath_error) simp

lemma load_technical_achievements_error:
  "load_technical_achievements y = Inl e \<Longrightarrow> e = TypeError"
  unfolding load_technical_achievements_def
  by (elim bindE_TypeError load_b2b_cli_error load_infrastructure_architecture_error
        load_self_healing_system_error) simp

lemma load_scale_error: "load_scale y = Inl e \<Longrightarrow> e = TypeError"
  unfolding load_scale_def by (elim bindE_TypeError getPath_error) simp

lemma load_efficiency_error: "load_efficiency y = Inl e \<Longrightarrow> e = TypeError"
  unfolding load_efficiency_def by (elim bindE_TypeError getPath_error) simp

lemma load_reliability_error: "load_reliability y = Inl e \<Longrightarrow> e = TypeError"
  unfolding load_reliability_def by (elim bindE_TypeError getPath_error) simp

lemma load_metrics_and_impact_error: "load_metrics_and_impact y = Inl e \<Longrightarrow> e = TypeError"
  unfolding load_metrics_and_impact_def
  by (elim bindE_TypeError load_scale_error load_efficiency_error load_reliability_error) simp

lemma buildCareerData_error: "buildCareerData y = Inl e \<Longrightarrow> e = TypeError"
  unfolding buildCareerData_def
  by (elim bindE_TypeError load_career_summary_error load_platform_transformation_error
        load_technical_achievements_error load_metrics_and_impact_error) simp

text \<open>What a call returns and what it writes to the console.\<close>

lemma fst_loadMasterData_parsed:
  "fst (loadMasterData_parsed y out) = (if nullish y then Inl TypeError else buildCareerData y)"
  by (simp add: loadMasterData_parsed_def getProp_def Let_def)

lemma snd_loadMasterData_parsed:
  "snd (loadMasterData_parsed y out) = out @ snd (loadMasterData_parsed y [])"
  by (simp add: loadMasterData_parsed_def getProp_def Let_def)

lemma fst_loadMasterData:
  "fst (loadMasterData yaml_load masterDataYaml out) =
     (case yaml_load masterDataYaml of
        None \<Rightarrow> Inl YAMLException
      | Some y \<Rightarrow> if nullish y then Inl TypeError else buildCareerData y)"
  by (simp add: loadMasterData_def fst_loadMasterData_parsed split: option.splits)

text \<open>
  On a text that parses, \<open>loadMasterData\<close> is \<open>loadMasterData_parsed\<close> of the
  document.
\<close>

lemma loadMasterData_Some:
  "yaml_load masterDataYaml = Some yamlData \<Longrightarrow>
   loadMasterData yaml_load masterDataYaml out = loadMasterData_parsed yamlData out"
  by (simp add: loadMasterData_def)

lemma loadMasterData_error:
  "fst (loadMasterData yaml_load masterDataYaml out) = Inl e \<Longrightarrow>
   e = TypeError \<or> e = YAMLException"
  by (auto simp: fst_loadMasterData split: option.splits if_splits dest: buildCareerData_error)

lemma getPath_not_nullish: "getPath y (k # ks) = Inr v \<Longrightarrow> \<not> nullish y"
  by (auto simp: getProp_def bindE_eq_Inr split: if_splits)

text \<open>
  Claim C3 says that an absent or ill-typed required field makes \<open>loadMasterData\<close> fail
  with a DataShapeError. The loader checks nothing: on the defective document, where
  \<^verbatim>\<open>career_summary.current_role\<close> is absent and
  \<^verbatim>\<open>platform_transformation.before.clusters\<close> is the string \<^verbatim>\<open>"one"\<close>, it returns the
  view-model of the example with \<^verbatim>\<open>current_role\<close> undefined and \<^verbatim>\<open>clusters\<close> that
  string.
\<close>

theorem loadMasterData_defective_counterexample:
  "getPath exampleYaml_defective [''career_summary'', ''current_role''] = Inr Undefined \<and>
   getPath exampleYaml_defective [''platform_transformation'', ''before'', ''clusters''] =
     Inr (Str ''one'') \<and>
   fst (loadMasterData_parsed exampleYaml_defective []) =
     Inr (exampleData
      \<lparr>career_summary := (career_summary exampleData)\<lparr>current_role := Undefined\<rparr>,
       platform_transformation := (platform_transformation exampleData)
         \<lparr>before := (before (platform_transformation exampleData))\<lparr>clusters := Str ''one''\<rparr>\<rparr>\<rparr>)"
  by code_simp

lemma load_career_summary_ok:
  assumes "\<exists>v. getPath y [''career_summary'', ''current_role''] = Inr v"
    and "\<exists>v. getPath y [''career_summary'', ''company''] = Inr v"
    and "\<exists>v. getPath y [''career_summary'', ''duration''] = Inr v"
    and "\<exists>v. getPath y [''career_summary'', ''location''] = Inr v"
    and "\<exists>v. getPath y [''career_summary'', ''elevator_pitch''] = Inr v"
  shows "\<exists>c. load_career_summary y = Inr c"
  unfolding load_career_summary_def by (intro bindE_ok assms) blast

lemma load_before_ok:
  assumes "\<exists>v. getPath y [''platform_transformation'', ''before'', ''clusters''] = Inr v"
    and "\<exists>v. getPath y [''platform_transformation'', ''before'', ''deployment_method''] = Inr v"
    and "\<exists>v. getPath y [''platform_transformation'', ''before'', ''environment_creation_time''] = Inr v"
    and "\<exists>v. getPath y [''platform_transformation'', ''before'', ''aws_accounts''] = Inr v"
  shows "\<exists>c. load_before y = Inr c"
  unfolding load_before_def by (intro bindE_ok assms) blast

lemma load_after_ok:
  assumes "\<exists>v. getPath y [''platform_transformation'', ''after'', ''clusters''] = Inr v"
    and "\<exists>v. getPath y [''platform_transformation'', ''after'', ''deployment_method''] = Inr v"
    and "\<exists>v. getPath y [''platform_transformation'', ''after'', ''environment_creation_time''] = Inr v"
    and "\<exists>v. getPath y [''platform_transformation'', ''after'', ''aws_accounts''] = Inr v"
    and "\<exists>v. getPath y [''platform_transformation'', ''after'', ''peak_clusters''] = Inr v"
    and "\<exists>v. getPath y [''platform_transformation'', ''after'', ''peak_accounts''] = Inr v"
  shows "\<exists>c. load_after y = Inr c"
  unfolding load_after_def by (intro bindE_ok assms) blast

lemma load_b2b_cli_ok:
  assumes "\<exists>v. getPath y [''technical_achievements'', ''b2b_cli'', ''description''] = Inr v"
    and "\<exists>v. getPath y [''technical_achievements'', ''b2b_cli'', ''lines_of_code''] = Inr v"
    and "\<exists>v. getPath y [''technical_achievements'', ''b2b_cli'', ''language''] = Inr v"
    and "\<exists>v. getPath y [''technical_achievements'', ''b2b_cli'', ''framework''] = Inr v"
    and "\<exists>v. getPath y [''technical_achievements'', ''b2b_cli'', ''key_features''] = Inr v"
  shows "\<exists>c. load_b2b_cli y = Inr c"
  unfolding load_b2b_cli_def by (intro bindE_ok assms) blast

lemma load_infrastructure_architecture_ok:
  assumes "\<exists>v. getPath y [''technical_achievements'', ''infrastructure_architecture'', ''codename''] = Inr v"
    and "\<exists>v. getPath y [''technical_achievements'', ''infrastructure_architecture'', ''design_pattern''] = Inr v"
    and "\<exists>v. getPath y [''technical_achievements'', ''infrastructure_architecture'', ''problem_solved''] = Inr v"
    and "\<exists>v. getPath y [''technical_achievements'', ''infrastructure_architecture'', ''key_innovations''] = Inr v"
  shows "\<exists>c. load_infrastructure_architecture y = Inr c"
  unfolding load_infrastructure_architecture_def by (intro bindE_ok assms) blast

lemma load_self_healing_system_ok:
  assumes "\<exists>v. getPath y [''self_healing_system'', ''name''] = Inr v"
    and "\<exists>v. getPath y [''self_healing_system'', ''total_fixers''] = Inr v"
    and "\<exists>v. getPath y [''self_healing_system'', ''configuration''] = Inr v"
  shows "\<exists>c. load_self_healing_system y = Inr c"
  unfolding load_self_healing_system_def by (intro bindE_ok assms) blast

lemma load_scale_ok:
  assumes "\<exists>v. getPath y [''platform_transformation'', ''after'', ''peak_clusters''] = Inr v"
    and "\<exists>v. getPath y [''platform_transformation'', ''after'', ''peak_accounts''] = Inr v"
    and "\<exists>v. getPath y [''platform_transformation'', ''scale'', ''developers_supported''] = Inr v"
  shows "\<exists>c. load_scale y = Inr c"
  unfolding load_scale_def by (intro bindE_ok assms) blast

lemma load_efficiency_ok:
  assumes "\<exists>v. getPath y [''technical_achievements'', ''metrics_and_impact'', ''efficiency'',
                ''environment_creation''] = Inr v"
    and "\<exists>v. getPath y [''technical_achievements'', ''metrics_and_impact'', ''efficiency'',
                ''deployment_process''] = Inr v"
    and "\<exists>v. getPath y [''technical_achievements'', ''metrics_and_impact'', ''efficiency'',
                ''platform_engineer_productivity''] = Inr v"
  shows "\<exists>c. load_efficiency y = Inr c"
  unfolding load_efficiency_def by (intro bindE_ok assms) blast

lemma load_reliability_ok:
  assumes "\<exists>v. getPath y [''self_healing_system'', ''total_fixers''] = Inr v"
  shows "\<exists>c. load_reliability y = Inr c"
  unfolding load_reliability_def by (intro bindE_ok assms) blast

lemma fieldPaths_first:
  "(\<lambda>d. current_role (career_summary d), [''career_summary'', ''current_role''])
     \<in> set fieldPaths"
  by (simp only: fieldPaths_def list.set) (rule insertI1)

text \<open>The loader returns as soon as every path of the table can be read.\<close>

lemma buildCareerData_ok:
  assumes "\<forall>(field, path) \<in> set fieldPaths. \<exists>v. getPath y path = Inr v"
  shows "\<exists>d. buildCareerData y = Inr d"
proof -
  note p = assms [unfolded fieldPaths_def, simplified list.set ball_simps prod.case simp_thms]
  have "\<exists>c. load_career_summary y = Inr c"
    by (intro load_career_summary_ok) (insert p, (elim conjE, assumption)+)
  moreover have "\<exists>c. load_before y = Inr c"
    by (intro load_before_ok) (insert p, (elim conjE, assumption)+)
  moreover have "\<exists>c. load_after y = Inr c"
    by (intro load_after_ok) (insert p, (elim conjE, assumption)+)
  ultimately have "\<exists>c. load_career_summary y = Inr c"
    and "\<exists>c. load_platform_transformation y = Inr c"
    unfolding load_platform_transformation_def by (blast intro: bindE_ok)+
  moreover have "\<exists>c. load_b2b_cli y = Inr c"
    by (intro load_b2b_cli_ok) (insert p, (elim conjE, assumption)+)
  moreover have "\<exists>c. load_infrastructure_architecture y = Inr c"
    by (intro load_infrastructure_architecture_ok) (insert p, (elim conjE, assumption)+)
  moreover have "\<exists>c. load_self_healing_system y = Inr c"
    by (intro load_self_healing_system_ok) (insert p, (elim conjE, assumption)+)
  ultimately have "\<exists>c. load_career_summary y = Inr c"
    and "\<exists>c. load_platform_transformation y = Inr c"
    and "\<exists>c. load_technical_achievements y = Inr c"
    unfolding load_technical_achievements_def by (blast intro: bindE_ok)+
  moreover have "\<exists>c. load_scale y = Inr c"
    by (intro load_scale_ok) (insert p, (elim conjE, assumption)+)
  moreover have "\<exists>c. load_efficiency y = Inr c"
    by (intro load_efficiency_ok) (insert p, (elim conjE, assumption)+)
  moreover have "\<exists>c. load_reliability y = Inr c"
    by (intro load_reliability_ok) (insert p, (elim conjE, assumption)+)
  ultimately have "\<exists>c. load_career_summary y = Inr c"
    and "\<exists>c. load_platform_transformation y = Inr c"
    and "\<exists>c. load_technical_achievements y = Inr c"
    and "\<exists>c. load_metrics_and_impact y = Inr c"
    unfolding load_metrics_and_impact_def by (blast intro: bindE_ok)+
  then show ?thesis
    unfolding buildCareerData_def by (blast intro: bindE_ok)
qed

text \<open>What the loader returns holds, in every field, the value read at the field's path.\<close>

lemma buildCareerData_fields:
  assumes "buildCareerData y = Inr d"
  shows "\<forall>(field, path) \<in> set fieldPaths. getPath y path = Inr (field d)"
proof -
  from assms have c: "load_career_summary y = Inr (career_summary d)"
    and p: "load_before y = Inr (before (platform_transformation d))"
      "load_after y = Inr (after (platform_transformation d))"
    and t: "load_b2b_cli y = Inr (b2b_cli (technical_achievements d))"
      "load_infrastructure_architecture y =
         Inr (infrastructure_architecture (technical_achievements d))"
      "\<exists>r. self_healing_system (technical_achievements d) = Some r \<and>
           load_self_healing_system y = Inr r"
    and m: "load_scale y = Inr (scale (metrics_and_impact d))"
      "load_efficiency y = Inr (efficiency (metrics_and_impact d))"
      "load_reliability y = Inr (reliability (metrics_and_impact d))"
    by (simp_all add: buildCareerData_Inr load_platform_transformation_Inr
        load_technical_achievements_Inr load_metrics_and_impact_Inr)
  from t(3) obtain r where r: "self_healing_system (technical_achievements d) = Some r"
    "load_self_healing_system y = Inr r" by blast
  from p(2) m(1) have "Inr (scale_clusters (scale (metrics_and_impact d))) =
      (Inr (peak_clusters (after (platform_transformation d))) :: error + jsval)"
    unfolding load_after_Inr load_scale_Inr by (elim conjE) (erule subst, assumption)
  moreover from p(2) m(1) have "Inr (scale_aws_accounts (scale (metrics_and_impact d))) =
      (Inr (peak_accounts (after (platform_transformation d))) :: error + jsval)"
    unfolding load_after_Inr load_scale_Inr by (elim conjE) (erule subst, assumption)
  moreover from r(2) m(3) have "Inr (self_healing_patterns (reliability (metrics_and_impact d))) =
      (Inr (total_fixers r) :: error + jsval)"
    unfolding load_self_healing_system_Inr load_reliability_Inr
    by (elim conjE) (erule subst, assumption)
  ultimately have e: "scale_clusters (scale (metrics_and_impact d)) =
        peak_clusters (after (platform_transformation d))"
      "scale_aws_accounts (scale (metrics_and_impact d)) =
        peak_accounts (after (platform_transformation d))"
      "self_healing_patterns (reliability (metrics_and_impact d)) = total_fixers r"
    by (simp_all only: sum.inject)
  show ?thesis
    unfolding fieldPaths_def
    by (simp only: list.set ball_simps prod.case simp_thms option.case e
        c [unfolded load_career_summary_Inr] p(1) [unfolded load_before_Inr]
        p(2) [unfolded load_after_Inr] t(1) [unfolded load_b2b_cli_Inr]
        t(2) [unfolded load_infrastructure_architecture_Inr]
        r(2) [unfolded load_self_healing_system_Inr] m(2) [unfolded load_efficiency_Inr]
        r(1))
       (insert m(1) [unfolded load_scale_Inr], elim conjE, assumption)
qed

text \<open>
  Claim C3 as amended. \<open>loadMasterData\<close> never fails with a DataShapeError and checks
  no kind. It returns a view-model as soon as every path of the table can be read, that
  is, as soon as the containers on the path exist (the last key may be absent); and
  the view-model it returns holds in every field exactly the value read at the field's
  path, \<^verbatim>\<open>undefined\<close> for an absent key and a value of whatever kind unchanged. It
  never puts a placeholder such as zero or the empty string in a field's place.
\<close>

theorem loadMasterData_passes_values_through:
  "fst (loadMasterData yaml_load masterDataYaml out) \<noteq> Inl DataShapeError \<and>
   (yaml_load masterDataYaml = Some yamlData \<and>
    (\<forall>(field, path) \<in> set fieldPaths. \<exists>v. getPath yamlData path = Inr v) \<longrightarrow>
      (\<exists>d. fst (loadMasterData yaml_load masterDataYaml out) = Inr d)) \<and>
   (yaml_load masterDataYaml = Some yamlData \<and>
    fst (loadMasterData yaml_load masterDataYaml out) = Inr d \<longrightarrow>
      (\<forall>(field, path) \<in> set fieldPaths. getPath yamlData path = Inr (field d)))"
proof (intro conjI impI)
  show "fst (loadMasterData yaml_load masterDataYaml out) \<noteq> Inl DataShapeError"
    using loadMasterData_error [of yaml_load masterDataYaml out DataShapeError] by auto
next
  assume a: "yaml_load masterDataYaml = Some yamlData \<and>
    (\<forall>(field, path) \<in> set fieldPaths. \<exists>v. getPath yamlData path = Inr v)"
  then have "\<exists>v. getPath yamlData [''career_summary'', ''current_role''] = Inr v"
    using fieldPaths_first by blast
  then have "\<not> nullish yamlData"
    by (blast dest: getPath_not_nullish)
  moreover from a have "\<exists>d. buildCareerData yamlData = Inr d"
    by (intro buildCareerData_ok) blast
  ultimately show "\<exists>d. fst (loadMasterData yaml_load masterDataYaml out) = Inr d"
    using a by (simp add: fst_loadMasterData)
next
  assume a: "yaml_load masterDataYaml = Some yamlData \<and>
    fst (loadMasterData yaml_load masterDataYaml out) = Inr d"
  then have "buildCareerData yamlData = Inr d"
    by (auto simp: fst_loadMasterData split: if_splits)
  then show "\<forall>(field, path) \<in> set fieldPaths. getPath yamlData path = Inr (field d)"
    by (rule buildCareerData_fields)
qed

theorem loadMasterData_passes_values_through_witness:
  "fst (loadMasterData (\<lambda>t. Some exampleYaml_defective) '''' []) =
     Inr (exampleData
      \<lparr>career_summary := (career_summary exampleData)\<lparr>current_role := Undefined\<rparr>,
       platform_transformation := (platform_transformation exampleData)
         \<lparr>before := (before (platform_transformation exampleData))\<lparr>clusters := Str ''one''\<rparr>\<rparr>\<rparr>) \<and>
   list_all (\<lambda>(field, path). getPath exampleYaml_defective path =
      Inr (field (exampleData
      \<lparr>career_summary := (career_summary exampleData)\<lparr>current_role := Undefined\<rparr>,
       platform_transformation := (platform_transformation exampleData)
         \<lparr>before := (before (platform_transformation exampleData))\<lparr>clusters := Str ''one''\<rparr>\<rparr>\<rparr>)))
     fieldPaths"
proof -
  let ?d = "exampleData
      \<lparr>career_summary := (career_summary exampleData)\<lparr>current_role := Undefined\<rparr>,
       platform_transformation := (platform_transformation exampleData)
         \<lparr>before := (before (platform_transformation exampleData))\<lparr>clusters := Str ''one''\<rparr>\<rparr>\<rparr>"
  have "buildCareerData exampleYaml_defective = Inr ?d"
    by code_simp
  moreover have "\<not> nullish exampleYaml_defective"
    by (simp add: nullish_def exampleYaml_defective_def)
  ultimately have l: "fst (loadMasterData (\<lambda>t. Some exampleYaml_defective) '''' []) = Inr ?d"
    by (simp add: fst_loadMasterData)
  with loadMasterData_passes_values_through
    [of "\<lambda>t. Some exampleYaml_defective" "''''" "[]" exampleYaml_defective ?d]
  have "\<forall>(field, path) \<in> set fieldPaths. getPath exampleYaml_defective path = Inr (field ?d)"
    by blast
  then have "list_all (\<lambda>(field, path). getPath exampleYaml_defective path = Inr (field ?d))
      fieldPaths"
    by (simp only: list_all_iff)
  with l show ?thesis by blast
qed


section \<open>The View-Model Loader: what two calls return and what they leave behind\<close>

lemma loadMasterData_parsed_not_nullish:
  "\<not> nullish yamlData \<Longrightarrow>
   loadMasterData_parsed yamlData out = (buildCareerData yamlData, out @ debugLines yamlData)"
  by (simp add: loadMasterData_parsed_def getProp_def Let_def debugLines_def)

text \<open>
  Claim C7 says that \<open>loadMasterData\<close> is pure, with no side effect a caller can see.
  Lines 13 and 14 log to the console on every call: on the example document a call that
  starts with an empty console returns the example view-model and leaves two lines
  behind, and a second call, which starts from those two lines, returns the same
  view-model and leaves four.
\<close>

theorem loadMasterData_console_counterexample:
  "loadMasterData_parsed exampleYaml [] =
     (Inr exampleData,
      [(''Lines of code from YAML:'', Num 100000), (''Peak clusters:'', Num 67)]) \<and>
   loadMasterData_parsed exampleYaml
       [(''Lines of code from YAML:'', Num 100000), (''Peak clusters:'', Num 67)] =
     (Inr exampleData,
      [(''Lines of code from YAML:'', Num 100000), (''Peak clusters:'', Num 67),
       (''Lines of code from YAML:'', Num 100000), (''Peak clusters:'', Num 67)]) \<and>
   snd (loadMasterData_parsed exampleYaml []) \<noteq> []"
  by code_simp

text \<open>
  Claim C7 as amended: \<open>loadMasterData\<close> is deterministic, and its one side effect is
  the debug log. What a call returns never depends on what the console holds. On a
  valid text, one that parses to a document in which every path of the table can be
  read, there is one view-model that every call returns, whatever the console holds
  when it starts: the view-model whose every field is the value read at the field's
  path. So two calls on the same text, one after the other, return equal view-models.
  All a call changes is the console, to which it appends the same two lines, fixed by
  the document; the loader reads and writes no other state and keeps no cache.
\<close>

theorem loadMasterData_same_view_model:
  "fst (loadMasterData yaml_load masterDataYaml out1) =
     fst (loadMasterData yaml_load masterDataYaml out2) \<and>
   (yaml_load masterDataYaml = Some yamlData \<and>
    (\<forall>(field, path) \<in> set fieldPaths. \<exists>v. getPath yamlData path = Inr v) \<longrightarrow>
      (\<exists>d. (\<forall>out. loadMasterData yaml_load masterDataYaml out =
                    (Inr d, out @ debugLines yamlData)) \<and>
           (\<forall>out. loadMasterData yaml_load masterDataYaml
                    (snd (loadMasterData yaml_load masterDataYaml out)) =
                    (Inr d, out @ debugLines yamlData @ debugLines yamlData)) \<and>
           (\<forall>(field, path) \<in> set fieldPaths. getPath yamlData path = Inr (field d))))"
proof (intro conjI impI)
  show "fst (loadMasterData yaml_load masterDataYaml out1) =
      fst (loadMasterData yaml_load masterDataYaml out2)"
    by (simp add: fst_loadMasterData)
next
  assume a: "yaml_load masterDataYaml = Some yamlData \<and>
    (\<forall>(field, path) \<in> set fieldPaths. \<exists>v. getPath yamlData path = Inr v)"
  then have p: "yaml_load masterDataYaml = Some yamlData"
    and r: "\<forall>(field, path) \<in> set fieldPaths. \<exists>v. getPath yamlData path = Inr v"
    by blast+
  from r have "\<exists>v. getPath yamlData [''career_summary'', ''current_role''] = Inr v"
    using fieldPaths_first by blast
  then have n: "\<not> nullish yamlData"
    by (blast dest: getPath_not_nullish)
  from r obtain d where d: "buildCareerData yamlData = Inr d"
    using buildCareerData_ok by blast
  have c: "loadMasterData yaml_load masterDataYaml out = (Inr d, out @ debugLines yamlData)"
    for out
    by (simp add: loadMasterData_def p loadMasterData_parsed_not_nullish [OF n] d)
  have "loadMasterData yaml_load masterDataYaml
          (snd (loadMasterData yaml_load masterDataYaml out)) =
        (Inr d, out @ debugLines yamlData @ debugLines yamlData)" for out
    by (simp add: c)
  with c buildCareerData_fields [OF d]
  show "\<exists>d. (\<forall>out. loadMasterData yaml_load masterDataYaml out =
                    (Inr d, out @ debugLines yamlData)) \<and>
           (\<forall>out. loadMasterData yaml_load masterDataYaml
                    (snd (loadMasterData yaml_load masterDataYaml out)) =
                    (Inr d, out @ debugLines yamlData @ debugLines yamlData)) \<and>
           (\<forall>(field, path) \<in> set fieldPaths. getPath yamlData path = Inr (field d))"
    by blast
qed

theorem loadMasterData_same_view_model_witness:
  "loadMasterData (\<lambda>t. Some exampleYaml) [] [] =
     (Inr exampleData,
      [(''Lines of code from YAML:'', Num 100000), (''Peak clusters:'', Num 67)]) \<and>
   loadMasterData (\<lambda>t. Some exampleYaml) []
       (snd (loadMasterData (\<lambda>t. Some exampleYaml) [] [])) =
     (Inr exampleData,
      [(''Lines of code from YAML:'', Num 100000), (''Peak clusters:'', Num 67),
       (''Lines of code from YAML:'', Num 100000), (''Peak clusters:'', Num 67)])"
proof -
  have b: "buildCareerData exampleYaml = Inr exampleData"
    by code_simp
  have l: "debugLines exampleYaml =
      [(''Lines of code from YAML:'', Num 100000), (''Peak clusters:'', Num 67)]"
    by code_simp
  have "\<forall>(field, path) \<in> set fieldPaths. \<exists>v. getPath exampleYaml path = Inr v"
    using buildCareerData_fields [OF b] by blast
  with loadMasterData_same_view_model [of "\<lambda>t. Some exampleYaml" "[]" "[]" "[]" exampleYaml]
  obtain d where d: "\<forall>out. loadMasterData (\<lambda>t. Some exampleYaml) [] out =
        (Inr d, out @ debugLines exampleYaml)"
    and t: "\<forall>out. loadMasterData (\<lambda>t. Some exampleYaml) []
        (snd (loadMasterData (\<lambda>t. Some exampleYaml) [] out)) =
        (Inr d, out @ debugLines exampleYaml @ debugLines exampleYaml)"
    by blast
  have "\<not> nullish exampleYaml"
    by (simp add: nullish_def exampleYaml_def)
  then have "fst (loadMasterData (\<lambda>t. Some exampleYaml) [] []) = Inr exampleData"
    by (simp add: fst_loadMasterData b)
  with d have "d = exampleData"
    by simp
  with d [rule_format, of "[]"] t [rule_format, of "[]"] l show ?thesis
    by simp
qed

end
